theory Spec2Isabelle
  imports Main "HOL-Library.Word"
begin

section \<open>A2DP offload: session state machine and codec configuration (hal/audio_extn/a2dp.c)\<close>

text \<open>
  The model follows \<^verbatim>\<open>hal/audio_extn/a2dp.c\<close>. The global \<^verbatim>\<open>struct a2dp_data a2dp\<close>
  is passed explicitly and returned updated. Everything the file calls outside itself (the
  Bluetooth IPC library reached through function pointers, and the ALSA mixer) is an
  environment record that fixes what each of those calls answers during one top-level call;
  every top-level function touches each mixer control and each IPC operation at most once,
  so one answer per control and per operation is fully general. The calls made are collected
  in a list of events, in program order. Log output is not modelled.
\<close>

subsection \<open>Constants\<close>

definition ENC_MEDIA_FMT_AAC :: "32 word" where "ENC_MEDIA_FMT_AAC = 0x00010DA6"
definition ENC_MEDIA_FMT_APTX :: "32 word" where "ENC_MEDIA_FMT_APTX = 0x000131ff"
definition ENC_MEDIA_FMT_APTX_HD :: "32 word" where "ENC_MEDIA_FMT_APTX_HD = 0x00013200"
definition ENC_MEDIA_FMT_LDAC :: "32 word" where "ENC_MEDIA_FMT_LDAC = 0x00013224"
definition ENC_MEDIA_FMT_SBC :: "32 word" where "ENC_MEDIA_FMT_SBC = 0x00010BF2"
definition ENC_MEDIA_FMT_NONE :: "32 word" where "ENC_MEDIA_FMT_NONE = 0"
definition MEDIA_FMT_SBC_ALLOCATION_METHOD_LOUDNESS :: "32 word" where
  "MEDIA_FMT_SBC_ALLOCATION_METHOD_LOUDNESS = 0"
definition MEDIA_FMT_SBC_ALLOCATION_METHOD_SNR :: "32 word" where
  "MEDIA_FMT_SBC_ALLOCATION_METHOD_SNR = 1"
definition MEDIA_FMT_AAC_AOT_LC :: "32 word" where "MEDIA_FMT_AAC_AOT_LC = 2"
definition MEDIA_FMT_AAC_AOT_SBR :: "32 word" where "MEDIA_FMT_AAC_AOT_SBR = 5"
definition MEDIA_FMT_AAC_AOT_PS :: "32 word" where "MEDIA_FMT_AAC_AOT_PS = 29"
definition MEDIA_FMT_SBC_CHANNEL_MODE_MONO :: "32 word" where
  "MEDIA_FMT_SBC_CHANNEL_MODE_MONO = 1"
definition MEDIA_FMT_SBC_CHANNEL_MODE_STEREO :: "32 word" where
  "MEDIA_FMT_SBC_CHANNEL_MODE_STEREO = 2"
definition MEDIA_FMT_SBC_CHANNEL_MODE_DUAL_MONO :: "32 word" where
  "MEDIA_FMT_SBC_CHANNEL_MODE_DUAL_MONO = 8"
definition MEDIA_FMT_SBC_CHANNEL_MODE_JOINT_STEREO :: "32 word" where
  "MEDIA_FMT_SBC_CHANNEL_MODE_JOINT_STEREO = 9"

definition PCM_CHANNEL_L :: "8 word" where "PCM_CHANNEL_L = 1"
definition PCM_CHANNEL_R :: "8 word" where "PCM_CHANNEL_R = 2"
definition PCM_CHANNEL_C :: "8 word" where "PCM_CHANNEL_C = 3"

definition MIXER_ENC_CONFIG_BLOCK :: string where
  "MIXER_ENC_CONFIG_BLOCK = ''SLIM_7_RX Encoder Config''"
definition MIXER_ENC_BIT_FORMAT :: string where
  "MIXER_ENC_BIT_FORMAT = ''AFE Input Bit Format''"
definition MIXER_SCRAMBLER_MODE :: string where
  "MIXER_SCRAMBLER_MODE = ''AFE Scrambler Mode''"
definition MIXER_SAMPLE_RATE :: string where
  "MIXER_SAMPLE_RATE = ''BT SampleRate''"
definition MIXER_AFE_IN_CHANNELS :: string where
  "MIXER_AFE_IN_CHANNELS = ''AFE Input Channels''"

definition DEFAULT_ENCODER_BIT_FORMAT :: "32 word" where "DEFAULT_ENCODER_BIT_FORMAT = 16"

text \<open>The values of \<^verbatim>\<open>enc_codec_t\<close>, as the comments of the enum give them.\<close>

definition ENC_CODEC_TYPE_INVALID :: "32 word" where "ENC_CODEC_TYPE_INVALID = 0xFFFFFFFF"
definition ENC_CODEC_TYPE_AAC :: "32 word" where "ENC_CODEC_TYPE_AAC = 0x04000000"
definition ENC_CODEC_TYPE_SBC :: "32 word" where "ENC_CODEC_TYPE_SBC = 0x1F000000"
definition ENC_CODEC_TYPE_APTX :: "32 word" where "ENC_CODEC_TYPE_APTX = 0x20000000"
definition ENC_CODEC_TYPE_APTX_HD :: "32 word" where "ENC_CODEC_TYPE_APTX_HD = 0x21000000"
definition ENC_CODEC_TYPE_LDAC :: "32 word" where "ENC_CODEC_TYPE_LDAC = 0x23000000"

text \<open>
  The error numbers come from the C library's \<^verbatim>\<open>errno.h\<close>; on Linux
  \<^verbatim>\<open>ENOSYS\<close> is 38 and \<^verbatim>\<open>ETIMEDOUT\<close> is 110. \<^verbatim>\<open>INT_MAX\<close> and \<^verbatim>\<open>INT_MIN\<close>
  are those of a 32-bit \<^verbatim>\<open>int\<close>.
\<close>

definition ENOSYS :: int where "ENOSYS = 38"
definition ETIMEDOUT :: int where "ETIMEDOUT = 110"
definition INT_MAX :: int where "INT_MAX = 2147483647"
definition INT_MIN :: int where "INT_MIN = - 2147483648"

subsection \<open>The session data\<close>

datatype A2DP_STATE =
    A2DP_STATE_CONNECTED
  | A2DP_STATE_STARTED
  | A2DP_STATE_STOPPED
  | A2DP_STATE_DISCONNECTED

text \<open>
  \<^verbatim>\<open>struct a2dp_data\<close>. A pointer field (the library handle and the ten function pointers)
  is \<open>True\<close> when it is not \<^verbatim>\<open>NULL\<close>; what a bound function returns is in the environment.
  The \<^verbatim>\<open>adev\<close> pointer is only used to reach the mixer, which is in the environment too.
  \<^verbatim>\<open>bt_encoder_format\<close> is kept as the 32-bit value of the enum, because
  \<^verbatim>\<open>reset_a2dp_enc_config_params\<close> stores \<^verbatim>\<open>ENC_MEDIA_FMT_NONE\<close> (0) in it, which is
  none of the enum's constants. The session counter is a C \<^verbatim>\<open>int\<close>.
\<close>

record a2dp_data =
  bt_lib_handle :: bool
  audio_stream_open :: bool
  audio_stream_close :: bool
  audio_stream_start :: bool
  audio_stream_stop :: bool
  audio_stream_suspend :: bool
  audio_handoff_triggered :: bool
  clear_a2dp_suspend_flag :: bool
  audio_get_codec_config :: bool
  audio_check_a2dp_ready :: bool
  audio_is_scrambling_enabled :: bool
  bt_state :: A2DP_STATE
  bt_encoder_format :: "32 word"
  enc_sampling_rate :: "32 word"
  enc_channels :: "32 word"
  a2dp_started :: bool
  a2dp_suspended :: bool
  a2dp_total_active_session_request :: int
  is_a2dp_offload_supported :: bool
  is_handoff_in_progress :: bool
  is_aptx_dual_mono_supported :: bool

subsection \<open>DSP configuration structures\<close>

text \<open>
  Field names are prefixed with the codec, since several of the C structs share field
  names. All of them are packed.
\<close>

record aac_enc_cfg_t =
  aac_enc_format :: "32 word"
  aac_bit_rate :: "32 word"
  aac_enc_mode :: "32 word"
  aac_fmt_flag :: "16 word"
  aac_channel_cfg :: "16 word"
  aac_sample_rate :: "32 word"

record sbc_enc_cfg_t =
  sbc_enc_format :: "32 word"
  sbc_num_subbands :: "32 word"
  sbc_blk_len :: "32 word"
  sbc_channel_mode :: "32 word"
  sbc_alloc_method :: "32 word"
  sbc_bit_rate :: "32 word"
  sbc_sample_rate :: "32 word"

record custom_enc_cfg_t =
  enc_format :: "32 word"
  sample_rate :: "32 word"
  num_channels :: "16 word"
  reserved :: "16 word"
  channel_mapping :: "8 word list"
  custom_size :: "32 word"

record aptx_v2_enc_cfg_ext_t =
  sync_mode :: "32 word"

record aptx_enc_cfg_t =
  aptx_custom_cfg :: custom_enc_cfg_t
  aptx_v2_cfg :: aptx_v2_enc_cfg_ext_t

record ldac_specific_enc_cfg_t =
  ldac_bit_rate :: "32 word"
  ldac_channel_mode :: "16 word"
  ldac_mtu :: "16 word"

record ldac_enc_cfg_t =
  ldac_custom_cfg :: custom_enc_cfg_t
  ldac_cfg :: ldac_specific_enc_cfg_t

text \<open>The structures after \<^verbatim>\<open>memset(&cfg, 0x0, sizeof(cfg))\<close>.\<close>

definition zero_sbc_enc_cfg :: sbc_enc_cfg_t where
  "zero_sbc_enc_cfg = \<lparr>sbc_enc_format = 0, sbc_num_subbands = 0, sbc_blk_len = 0,
     sbc_channel_mode = 0, sbc_alloc_method = 0, sbc_bit_rate = 0, sbc_sample_rate = 0\<rparr>"

definition zero_aac_enc_cfg :: aac_enc_cfg_t where
  "zero_aac_enc_cfg = \<lparr>aac_enc_format = 0, aac_bit_rate = 0, aac_enc_mode = 0,
     aac_fmt_flag = 0, aac_channel_cfg = 0, aac_sample_rate = 0\<rparr>"

definition zero_custom_enc_cfg :: custom_enc_cfg_t where
  "zero_custom_enc_cfg = \<lparr>enc_format = 0, sample_rate = 0, num_channels = 0, reserved = 0,
     channel_mapping = [0, 0, 0, 0, 0, 0, 0, 0], custom_size = 0\<rparr>"

definition zero_aptx_enc_cfg :: aptx_enc_cfg_t where
  "zero_aptx_enc_cfg =
     \<lparr>aptx_custom_cfg = zero_custom_enc_cfg, aptx_v2_cfg = \<lparr>sync_mode = 0\<rparr>\<rparr>"

definition zero_ldac_enc_cfg :: ldac_enc_cfg_t where
  "zero_ldac_enc_cfg =
     \<lparr>ldac_custom_cfg = zero_custom_enc_cfg,
      ldac_cfg = \<lparr>ldac_bit_rate = 0, ldac_channel_mode = 0, ldac_mtu = 0\<rparr>\<rparr>"

text \<open>
  \<^verbatim>\<open>sizeof(struct ldac_enc_cfg_t)\<close>: the packed \<^verbatim>\<open>custom_enc_cfg_t\<close> has
  4 + 4 + 2 + 2 + 8 + 4 = 24 bytes and the packed \<^verbatim>\<open>ldac_specific_enc_cfg_t\<close> has
  4 + 2 + 2 = 8.
\<close>

definition sizeof_ldac_enc_cfg_t :: "32 word" where
  "sizeof_ldac_enc_cfg_t = 32"

subsection \<open>Encoder parameters received from the Bluetooth stack\<close>

record audio_sbc_encoder_config =
  sbc_subband :: "32 word"
  sbc_bt_blk_len :: "32 word"
  sbc_sampling_rate :: "16 word"
  sbc_channels :: "8 word"
  sbc_alloc :: "8 word"
  sbc_min_bitpool :: "8 word"
  sbc_max_bitpool :: "8 word"
  sbc_bitrate :: "32 word"
  sbc_bits_per_sample :: "32 word"

text \<open>
  \<^verbatim>\<open>audio_aptx_default_config\<close> and \<^verbatim>\<open>audio_aptx_dual_mono_config\<close> have the same
  member types in the same order, and \<^verbatim>\<open>audio_aptx_encoder_config\<close> is a union of a
  pointer to the one and a pointer to the other: both members name the same object. The model
  has one record for that object; its fourth member is \<^verbatim>\<open>bits_per_sample\<close> when read
  through \<^verbatim>\<open>default_cfg\<close> and \<^verbatim>\<open>sync_mode\<close> when read through \<^verbatim>\<open>dual_mono_cfg\<close>.
\<close>

record audio_aptx_default_config =
  aptx_sampling_rate :: "16 word"
  aptx_channels :: "8 word"
  aptx_bitrate :: "32 word"
  aptx_bits_per_sample :: "32 word"

definition aptx_dual_mono_sync_mode :: "audio_aptx_default_config \<Rightarrow> 32 word" where
  "aptx_dual_mono_sync_mode c = aptx_bits_per_sample c"

record audio_aac_encoder_config =
  aac_bt_enc_mode :: "32 word"
  aac_format_flag :: "16 word"
  aac_channels :: "16 word"
  aac_sampling_rate :: "32 word"
  aac_bitrate :: "32 word"
  aac_bits_per_sample :: "32 word"

record audio_ldac_encoder_config =
  ldac_sampling_rate :: "32 word"
  ldac_bt_bit_rate :: "32 word"
  ldac_bt_channel_mode :: "16 word"
  ldac_bt_mtu :: "16 word"
  ldac_bits_per_sample :: "32 word"

text \<open>
  What \<^verbatim>\<open>audio_get_codec_config\<close> answers: the codec type it stores through
  \<^verbatim>\<open>codec_type\<close> and the \<^verbatim>\<open>void *\<close> it returns, which the caller casts to the
  parameter structure of that codec. \<open>None\<close> is the \<^verbatim>\<open>NULL\<close> pointer. The pointer is
  taken to point to a structure of the type that goes with the codec type.
\<close>

datatype codec_config =
    CODEC_SBC "audio_sbc_encoder_config option"
  | CODEC_APTX "audio_aptx_default_config option"
  | CODEC_APTX_HD "audio_aptx_default_config option"
  | CODEC_AAC "audio_aac_encoder_config option"
  | CODEC_LDAC "audio_ldac_encoder_config option"
  | CODEC_OTHER "32 word"

subsection \<open>Environment and events\<close>

text \<open>
  \<open>mixer_has_ctl n\<close>: \<^verbatim>\<open>mixer_get_ctl_by_name\<close> finds the control named \<open>n\<close>;
  \<open>mixer_write_ret n\<close>: what the write to that control returns
  (\<^verbatim>\<open>mixer_ctl_set_array\<close>, \<^verbatim>\<open>mixer_ctl_set_enum_by_string\<close> or
  \<^verbatim>\<open>mixer_ctl_set_value\<close>). The other fields are the return values of the IPC library's
  operations.
\<close>

record env =
  mixer_has_ctl :: "string \<Rightarrow> bool"
  mixer_write_ret :: "string \<Rightarrow> int"
  stream_start_ret :: int
  stream_stop_ret :: int
  stream_close_ret :: int
  get_codec_config_ret :: codec_config
  is_scrambling_enabled_ret :: int
  check_a2dp_ready_ret :: int

datatype enc_cfg_block =
    SBC_BLOCK sbc_enc_cfg_t
  | AAC_BLOCK aac_enc_cfg_t
  | APTX_BLOCK aptx_enc_cfg_t
  | APTX_HD_BLOCK custom_enc_cfg_t
  | LDAC_BLOCK ldac_enc_cfg_t

text \<open>The calls into the IPC library and the writes to the mixer.\<close>

datatype event =
    IPC_audio_stream_start
  | IPC_audio_stream_stop
  | IPC_audio_stream_close
  | IPC_audio_get_codec_config
  | IPC_audio_is_scrambling_enabled
  | IPC_audio_check_a2dp_ready
  | MIXER_ctl_set_array string enc_cfg_block
  | MIXER_ctl_set_enum_by_string string string
  | MIXER_ctl_set_value string nat bool

text \<open>
  The one way in which a call does not return: reading through a \<^verbatim>\<open>NULL\<close> pointer,
  which ends the process.
\<close>

datatype fault = NullDereference

subsection \<open>Initialisation and disconnect\<close>

definition a2dp_common_init :: "a2dp_data \<Rightarrow> a2dp_data" where
  "a2dp_common_init a2dp =
     a2dp\<lparr>a2dp_started := False,
          a2dp_total_active_session_request := 0,
          a2dp_suspended := False,
          bt_encoder_format := ENC_CODEC_TYPE_INVALID,
          bt_state := A2DP_STATE_DISCONNECTED\<rparr>"


subsection \<open>Mixer configuration\<close>

definition a2dp_check_and_set_scrambler :: "env \<Rightarrow> a2dp_data \<Rightarrow> int \<times> event list" where
  "a2dp_check_and_set_scrambler e a2dp =
     (let query = audio_is_scrambling_enabled a2dp \<and> bt_state a2dp \<noteq> A2DP_STATE_DISCONNECTED;
          scrambler_mode = (if query then is_scrambling_enabled_ret e \<noteq> 0 else False);
          ev = (if query then [IPC_audio_is_scrambling_enabled] else [])
      in
        if scrambler_mode then
          (if \<not> mixer_has_ctl e MIXER_SCRAMBLER_MODE then (- ENOSYS, ev)
           else if mixer_write_ret e MIXER_SCRAMBLER_MODE \<noteq> 0
             then (mixer_write_ret e MIXER_SCRAMBLER_MODE,
                   ev @ [MIXER_ctl_set_value MIXER_SCRAMBLER_MODE 0 True])
           else (0, ev @ [MIXER_ctl_set_value MIXER_SCRAMBLER_MODE 0 True]))
        else (0, ev))"

definition a2dp_set_backend_cfg :: "env \<Rightarrow> a2dp_data \<Rightarrow> event list" where
  "a2dp_set_backend_cfg e a2dp =
     (let sampling_rate =
            (if bt_encoder_format a2dp = ENC_CODEC_TYPE_LDAC \<and>
                (enc_sampling_rate a2dp = 48000 \<or> enc_sampling_rate a2dp = 44100)
             then enc_sampling_rate a2dp * 2 else enc_sampling_rate a2dp);
          rate_str =
            (if sampling_rate = 44100 then ''KHZ_44P1''
             else if sampling_rate = 48000 then ''KHZ_48''
             else if sampling_rate = 88200 then ''KHZ_88P2''
             else if sampling_rate = 96000 then ''KHZ_96''
             else ''KHZ_48'');
          in_channels = (if enc_channels a2dp = 1 then ''One'' else ''Two'')
      in
        if \<not> mixer_has_ctl e MIXER_SAMPLE_RATE then []
        else if mixer_write_ret e MIXER_SAMPLE_RATE \<noteq> 0
          then [MIXER_ctl_set_enum_by_string MIXER_SAMPLE_RATE rate_str]
        else if \<not> mixer_has_ctl e MIXER_AFE_IN_CHANNELS
          then [MIXER_ctl_set_enum_by_string MIXER_SAMPLE_RATE rate_str]
        else [MIXER_ctl_set_enum_by_string MIXER_SAMPLE_RATE rate_str,
              MIXER_ctl_set_enum_by_string MIXER_AFE_IN_CHANNELS in_channels])"

definition a2dp_set_bit_format :: "env \<Rightarrow> 32 word \<Rightarrow> int \<times> event list" where
  "a2dp_set_bit_format e enc_bit_format =
     (let bit_format =
            (if enc_bit_format = 32 then ''S32_LE''
             else if enc_bit_format = 24 then ''S24_LE''
             else ''S16_LE'')
      in
        if \<not> mixer_has_ctl e MIXER_ENC_BIT_FORMAT then (- ENOSYS, [])
        else if mixer_write_ret e MIXER_ENC_BIT_FORMAT \<noteq> 0
          then (- ENOSYS, [MIXER_ctl_set_enum_by_string MIXER_ENC_BIT_FORMAT bit_format])
        else (0, [MIXER_ctl_set_enum_by_string MIXER_ENC_BIT_FORMAT bit_format]))"

definition a2dp_reset_backend_cfg :: "env \<Rightarrow> event list" where
  "a2dp_reset_backend_cfg e =
     (if \<not> mixer_has_ctl e MIXER_SAMPLE_RATE then []
      else if mixer_write_ret e MIXER_SAMPLE_RATE \<noteq> 0
        then [MIXER_ctl_set_enum_by_string MIXER_SAMPLE_RATE ''KHZ_8'']
      else if \<not> mixer_has_ctl e MIXER_AFE_IN_CHANNELS
        then [MIXER_ctl_set_enum_by_string MIXER_SAMPLE_RATE ''KHZ_8'']
      else [MIXER_ctl_set_enum_by_string MIXER_SAMPLE_RATE ''KHZ_8'',
            MIXER_ctl_set_enum_by_string MIXER_AFE_IN_CHANNELS ''Zero''])"

subsection \<open>Per-codec encoder configuration\<close>

text \<open>
  Each function builds the DSP structure, writes it to the encoder configuration control,
  sets the bit format, and only then records codec, rate and channels in the session.
  The argument is the pointer the function receives, \<open>None\<close> for \<^verbatim>\<open>NULL\<close>.
\<close>

definition configure_sbc_enc_format ::
  "env \<Rightarrow> audio_sbc_encoder_config option \<Rightarrow> a2dp_data \<Rightarrow> bool \<times> a2dp_data \<times> event list" where
  "configure_sbc_enc_format e sbc_bt_cfg a2dp =
     (case sbc_bt_cfg of
        None \<Rightarrow> (False, a2dp, [])
      | Some cfg \<Rightarrow>
          if \<not> mixer_has_ctl e MIXER_ENC_CONFIG_BLOCK then (False, a2dp, [])
          else
            let sbc_dsp_cfg = zero_sbc_enc_cfg
                  \<lparr>sbc_enc_format := ENC_MEDIA_FMT_SBC,
                   sbc_num_subbands := sbc_subband cfg,
                   sbc_blk_len := sbc_bt_blk_len cfg,
                   sbc_channel_mode :=
                     (if sbc_channels cfg = 0 then MEDIA_FMT_SBC_CHANNEL_MODE_MONO
                      else if sbc_channels cfg = 1 then MEDIA_FMT_SBC_CHANNEL_MODE_DUAL_MONO
                      else if sbc_channels cfg = 3 then MEDIA_FMT_SBC_CHANNEL_MODE_JOINT_STEREO
                      else MEDIA_FMT_SBC_CHANNEL_MODE_STEREO),
                   sbc_alloc_method :=
                     (if sbc_alloc cfg \<noteq> 0 then MEDIA_FMT_SBC_ALLOCATION_METHOD_LOUDNESS
                      else MEDIA_FMT_SBC_ALLOCATION_METHOD_SNR),
                   sbc_bit_rate := sbc_bitrate cfg,
                   sbc_sample_rate := ucast (sbc_sampling_rate cfg)\<rparr>;
                ev = [MIXER_ctl_set_array MIXER_ENC_CONFIG_BLOCK (SBC_BLOCK sbc_dsp_cfg)]
            in
              if mixer_write_ret e MIXER_ENC_CONFIG_BLOCK \<noteq> 0 then (False, a2dp, ev)
              else
                (case a2dp_set_bit_format e (sbc_bits_per_sample cfg) of
                   (ret, ev') \<Rightarrow>
                     if ret \<noteq> 0 then (False, a2dp, ev @ ev')
                     else
                       (True,
                        a2dp\<lparr>bt_encoder_format := ENC_CODEC_TYPE_SBC,
                             enc_sampling_rate := ucast (sbc_sampling_rate cfg),
                             enc_channels :=
                               (if sbc_channel_mode sbc_dsp_cfg = MEDIA_FMT_SBC_CHANNEL_MODE_MONO
                                then 1 else 2)\<rparr>,
                        ev @ ev')))"

text \<open>
  \<^verbatim>\<open>configure_aptx_enc_format\<close> receives a pointer to the union (the outer option) whose
  member is the pointer to the parameters (the inner option). Only the outer pointer is
  checked; the parameters are read through the inner one after the mixer control has been
  found, so a \<^verbatim>\<open>NULL\<close> inner pointer is a fault there.
\<close>

definition configure_aptx_enc_format ::
  "env \<Rightarrow> audio_aptx_default_config option option \<Rightarrow> a2dp_data
     \<Rightarrow> fault + (bool \<times> a2dp_data \<times> event list)" where
  "configure_aptx_enc_format e aptx_bt_cfg a2dp =
     (case aptx_bt_cfg of
        None \<Rightarrow> Inr (False, a2dp, [])
      | Some u \<Rightarrow>
          if \<not> mixer_has_ctl e MIXER_ENC_CONFIG_BLOCK then Inr (False, a2dp, [])
          else
            (case u of
               None \<Rightarrow> Inl NullDereference
             | Some cfg \<Rightarrow>
                 let custom = zero_custom_enc_cfg
                       \<lparr>enc_format := ENC_MEDIA_FMT_APTX,
                        sample_rate := ucast (aptx_sampling_rate cfg),
                        num_channels := ucast (aptx_channels cfg)\<rparr>;
                     v2 = (if \<not> is_aptx_dual_mono_supported a2dp then \<lparr>sync_mode = 0\<rparr>
                           else \<lparr>sync_mode = aptx_dual_mono_sync_mode cfg\<rparr>);
                     aptx_dsp_cfg =
                       \<lparr>aptx_custom_cfg = custom
                          \<lparr>channel_mapping :=
                             (if num_channels custom = 1
                              then (channel_mapping custom)[0 := PCM_CHANNEL_C]
                              else (channel_mapping custom)
                                     [0 := PCM_CHANNEL_L, 1 := PCM_CHANNEL_R])\<rparr>,
                        aptx_v2_cfg = v2\<rparr>;
                     ev = [MIXER_ctl_set_array MIXER_ENC_CONFIG_BLOCK (APTX_BLOCK aptx_dsp_cfg)]
                 in
                   if mixer_write_ret e MIXER_ENC_CONFIG_BLOCK \<noteq> 0 then Inr (False, a2dp, ev)
                   else
                     (case a2dp_set_bit_format e (aptx_bits_per_sample cfg) of
                        (ret, ev') \<Rightarrow>
                          if ret \<noteq> 0 then Inr (False, a2dp, ev @ ev')
                          else
                            Inr (True,
                                 a2dp\<lparr>bt_encoder_format := ENC_CODEC_TYPE_APTX,
                                      enc_channels :=
                                        ucast (num_channels (aptx_custom_cfg aptx_dsp_cfg)),
                                      enc_sampling_rate := ucast (aptx_sampling_rate cfg)\<rparr>,
                                 ev @ ev'))))"

definition configure_aptx_hd_enc_format ::
  "env \<Rightarrow> audio_aptx_default_config option \<Rightarrow> a2dp_data \<Rightarrow> bool \<times> a2dp_data \<times> event list" where
  "configure_aptx_hd_enc_format e aptx_bt_cfg a2dp =
     (case aptx_bt_cfg of
        None \<Rightarrow> (False, a2dp, [])
      | Some cfg \<Rightarrow>
          if \<not> mixer_has_ctl e MIXER_ENC_CONFIG_BLOCK then (False, a2dp, [])
          else
            let custom = zero_custom_enc_cfg
                  \<lparr>enc_format := ENC_MEDIA_FMT_APTX_HD,
                   sample_rate := ucast (aptx_sampling_rate cfg),
                   num_channels := ucast (aptx_channels cfg)\<rparr>;
                aptx_dsp_cfg = custom
                  \<lparr>channel_mapping :=
                     (if num_channels custom = 1
                      then (channel_mapping custom)[0 := PCM_CHANNEL_C]
                      else (channel_mapping custom)[0 := PCM_CHANNEL_L, 1 := PCM_CHANNEL_R])\<rparr>;
                ev = [MIXER_ctl_set_array MIXER_ENC_CONFIG_BLOCK (APTX_HD_BLOCK aptx_dsp_cfg)]
            in
              if mixer_write_ret e MIXER_ENC_CONFIG_BLOCK \<noteq> 0 then (False, a2dp, ev)
              else
                (case a2dp_set_bit_format e (aptx_bits_per_sample cfg) of
                   (ret, ev') \<Rightarrow>
                     if ret \<noteq> 0 then (False, a2dp, ev @ ev')
                     else
                       (True,
                        a2dp\<lparr>bt_encoder_format := ENC_CODEC_TYPE_APTX_HD,
                             enc_sampling_rate := ucast (aptx_sampling_rate cfg),
                             enc_channels := ucast (aptx_channels cfg)\<rparr>,
                        ev @ ev')))"

definition configure_aac_enc_format ::
  "env \<Rightarrow> audio_aac_encoder_config option \<Rightarrow> a2dp_data \<Rightarrow> bool \<times> a2dp_data \<times> event list" where
  "configure_aac_enc_format e aac_bt_cfg a2dp =
     (case aac_bt_cfg of
        None \<Rightarrow> (False, a2dp, [])
      | Some cfg \<Rightarrow>
          if \<not> mixer_has_ctl e MIXER_ENC_CONFIG_BLOCK then (False, a2dp, [])
          else
            let aac_dsp_cfg = zero_aac_enc_cfg
                  \<lparr>aac_enc_format := ENC_MEDIA_FMT_AAC,
                   aac_bit_rate := aac_bitrate cfg,
                   aac_sample_rate := aac_sampling_rate cfg,
                   aac_enc_mode :=
                     (if aac_bt_enc_mode cfg = 0 then MEDIA_FMT_AAC_AOT_LC
                      else if aac_bt_enc_mode cfg = 2 then MEDIA_FMT_AAC_AOT_PS
                      else MEDIA_FMT_AAC_AOT_SBR),
                   aac_fmt_flag := aac_format_flag cfg,
                   aac_channel_cfg := aac_channels cfg\<rparr>;
                ev = [MIXER_ctl_set_array MIXER_ENC_CONFIG_BLOCK (AAC_BLOCK aac_dsp_cfg)]
            in
              if mixer_write_ret e MIXER_ENC_CONFIG_BLOCK \<noteq> 0 then (False, a2dp, ev)
              else
                (case a2dp_set_bit_format e (aac_bits_per_sample cfg) of
                   (ret, ev') \<Rightarrow>
                     if ret \<noteq> 0 then (False, a2dp, ev @ ev')
                     else
                       (True,
                        a2dp\<lparr>bt_encoder_format := ENC_CODEC_TYPE_AAC,
                             enc_sampling_rate := aac_sampling_rate cfg,
                             enc_channels := ucast (aac_channels cfg)\<rparr>,
                        ev @ ev')))"

definition configure_ldac_enc_format ::
  "env \<Rightarrow> audio_ldac_encoder_config option \<Rightarrow> a2dp_data \<Rightarrow> bool \<times> a2dp_data \<times> event list" where
  "configure_ldac_enc_format e ldac_bt_cfg a2dp =
     (case ldac_bt_cfg of
        None \<Rightarrow> (False, a2dp, [])
      | Some cfg \<Rightarrow>
          if \<not> mixer_has_ctl e MIXER_ENC_CONFIG_BLOCK then (False, a2dp, [])
          else
            let custom = zero_custom_enc_cfg
                  \<lparr>enc_format := ENC_MEDIA_FMT_LDAC,
                   sample_rate := ldac_sampling_rate cfg\<rparr>;
                custom' =
                  (if ldac_bt_channel_mode cfg = 4
                   then custom\<lparr>channel_mapping := (channel_mapping custom)[0 := PCM_CHANNEL_C],
                               num_channels := 1\<rparr>
                   else custom\<lparr>channel_mapping :=
                                 (channel_mapping custom)[0 := PCM_CHANNEL_L, 1 := PCM_CHANNEL_R],
                               num_channels := 2\<rparr>);
                ldac_dsp_cfg =
                  \<lparr>ldac_custom_cfg = custom'\<lparr>custom_size := sizeof_ldac_enc_cfg_t\<rparr>,
                   ldac_cfg = \<lparr>ldac_bit_rate = ldac_bt_bit_rate cfg,
                               ldac_channel_mode = ldac_bt_channel_mode cfg,
                               ldac_mtu = ldac_bt_mtu cfg\<rparr>\<rparr>;
                ev = [MIXER_ctl_set_array MIXER_ENC_CONFIG_BLOCK (LDAC_BLOCK ldac_dsp_cfg)]
            in
              if mixer_write_ret e MIXER_ENC_CONFIG_BLOCK \<noteq> 0 then (False, a2dp, ev)
              else
                (case a2dp_set_bit_format e (ldac_bits_per_sample cfg) of
                   (ret, ev') \<Rightarrow>
                     if ret \<noteq> 0 then (False, a2dp, ev @ ev')
                     else
                       (True,
                        a2dp\<lparr>bt_encoder_format := ENC_CODEC_TYPE_LDAC,
                             enc_sampling_rate := ldac_sampling_rate cfg,
                             enc_channels := ucast (num_channels (ldac_custom_cfg ldac_dsp_cfg))\<rparr>,
                        ev @ ev')))"

text \<open>
  The dispatcher asks the IPC library for the codec and its parameters. For APTX it clears
  \<^verbatim>\<open>is_aptx_dual_mono_supported\<close> and passes the address of a local union, which is
  never \<^verbatim>\<open>NULL\<close>.
\<close>

definition configure_a2dp_encoder_format ::
  "env \<Rightarrow> a2dp_data \<Rightarrow> fault + (bool \<times> a2dp_data \<times> event list)" where
  "configure_a2dp_encoder_format e a2dp =
     (if \<not> audio_get_codec_config a2dp then Inr (False, a2dp, [])
      else
        (case get_codec_config_ret e of
           CODEC_SBC codec_info \<Rightarrow>
             (case configure_sbc_enc_format e codec_info a2dp of
                (ok, a2dp', ev) \<Rightarrow> Inr (ok, a2dp', IPC_audio_get_codec_config # ev))
         | CODEC_APTX codec_info \<Rightarrow>
             (case configure_aptx_enc_format e (Some codec_info)
                     (a2dp\<lparr>is_aptx_dual_mono_supported := False\<rparr>) of
                Inl f \<Rightarrow> Inl f
              | Inr (ok, a2dp', ev) \<Rightarrow> Inr (ok, a2dp', IPC_audio_get_codec_config # ev))
         | CODEC_APTX_HD codec_info \<Rightarrow>
             (case configure_aptx_hd_enc_format e codec_info a2dp of
                (ok, a2dp', ev) \<Rightarrow> Inr (ok, a2dp', IPC_audio_get_codec_config # ev))
         | CODEC_AAC codec_info \<Rightarrow>
             (case configure_aac_enc_format e codec_info a2dp of
                (ok, a2dp', ev) \<Rightarrow> Inr (ok, a2dp', IPC_audio_get_codec_config # ev))
         | CODEC_LDAC codec_info \<Rightarrow>
             (case configure_ldac_enc_format e codec_info a2dp of
                (ok, a2dp', ev) \<Rightarrow> Inr (ok, a2dp', IPC_audio_get_codec_config # ev))
         | CODEC_OTHER codec_type \<Rightarrow> Inr (False, a2dp, [IPC_audio_get_codec_config])))"

subsection \<open>Start, stop and the queries\<close>

definition reset_a2dp_enc_config_params :: "env \<Rightarrow> a2dp_data \<Rightarrow> int \<times> a2dp_data \<times> event list" where
  "reset_a2dp_enc_config_params e a2dp =
     (let (a2dp', ev) =
            (if \<not> mixer_has_ctl e MIXER_ENC_CONFIG_BLOCK then (a2dp, [])
             else (a2dp\<lparr>bt_encoder_format := ENC_MEDIA_FMT_NONE\<rparr>,
                   [MIXER_ctl_set_array MIXER_ENC_CONFIG_BLOCK (SBC_BLOCK zero_sbc_enc_cfg)]));
          (ret, ev') = a2dp_set_bit_format e DEFAULT_ENCODER_BIT_FORMAT
      in (ret, a2dp', ev @ ev'))"

text \<open>
  \<^verbatim>\<open>audio_extn_a2dp_start_playback\<close>. The first block runs when nothing is started and no
  session is counted: it calls the IPC start and, if that returns 0, configures the encoder.
  The second block counts the session and applies scrambler and backend configuration
  whenever \<^verbatim>\<open>a2dp_started\<close> holds by then. The counter is a 32-bit \<^verbatim>\<open>int\<close> and
  \<^verbatim>\<open>a2dp_total_active_session_request++\<close> has no guard: at \<^verbatim>\<open>INT_MAX\<close> the compiled
  increment wraps around to \<^verbatim>\<open>INT_MIN\<close>, and the call goes on and returns as usual.
\<close>

definition audio_extn_a2dp_start_playback ::
  "env \<Rightarrow> a2dp_data \<Rightarrow> fault + (int \<times> a2dp_data \<times> event list)" where
  "audio_extn_a2dp_start_playback e a2dp =
     (if \<not> (bt_lib_handle a2dp \<and> audio_stream_start a2dp \<and> audio_get_codec_config a2dp)
      then Inr (- ENOSYS, a2dp, [])
      else if a2dp_suspended a2dp then Inr (- ENOSYS, a2dp, [])
      else
        (case
           (if \<not> a2dp_started a2dp \<and> a2dp_total_active_session_request a2dp = 0 then
              (if stream_start_ret e \<noteq> 0
               then Inr (stream_start_ret e, a2dp\<lparr>a2dp_started := False\<rparr>,
                         [IPC_audio_stream_start])
               else
                 (case configure_a2dp_encoder_format e a2dp of
                    Inl f \<Rightarrow> Inl f
                  | Inr (ok, a2dp', ev) \<Rightarrow>
                      if ok then Inr (0, a2dp'\<lparr>a2dp_started := True\<rparr>,
                                      IPC_audio_stream_start # ev)
                      else Inr (- ETIMEDOUT, a2dp'\<lparr>a2dp_started := False\<rparr>,
                                IPC_audio_stream_start # ev)))
            else Inr (0, a2dp, []))
         of
           Inl f \<Rightarrow> Inl f
         | Inr (ret, a2dp1, ev1) \<Rightarrow>
             if a2dp_started a2dp1 then
               let a2dp2 = a2dp1\<lparr>a2dp_total_active_session_request :=
                                    (if a2dp_total_active_session_request a2dp1 = INT_MAX
                                     then INT_MIN
                                     else a2dp_total_active_session_request a2dp1 + 1)\<rparr>
               in Inr (ret, a2dp2,
                       ev1 @ snd (a2dp_check_and_set_scrambler e a2dp2)
                           @ a2dp_set_backend_cfg e a2dp2)
             else Inr (ret, a2dp1, ev1)))"

definition audio_extn_a2dp_stop_playback ::
  "env \<Rightarrow> a2dp_data \<Rightarrow> int \<times> a2dp_data \<times> event list" where
  "audio_extn_a2dp_stop_playback e a2dp =
     (if \<not> (bt_lib_handle a2dp \<and> audio_stream_stop a2dp) then (- ENOSYS, a2dp, [])
      else
        let a2dp1 =
              (if 0 < a2dp_total_active_session_request a2dp
               then a2dp\<lparr>a2dp_total_active_session_request :=
                           a2dp_total_active_session_request a2dp - 1\<rparr>
               else a2dp)
        in
          if a2dp_started a2dp1 \<and> a2dp_total_active_session_request a2dp1 = 0 then
            (case reset_a2dp_enc_config_params e a2dp1 of
               (ret, a2dp2, ev) \<Rightarrow>
                 (0, a2dp2\<lparr>a2dp_started := False\<rparr>,
                  IPC_audio_stream_stop # ev @ a2dp_reset_backend_cfg e))
          else (0, a2dp1, []))"

definition audio_extn_a2dp_is_ready :: "env \<Rightarrow> a2dp_data \<Rightarrow> bool \<times> event list" where
  "audio_extn_a2dp_is_ready e a2dp =
     (if a2dp_suspended a2dp then (False, [])
      else if bt_state a2dp \<noteq> A2DP_STATE_DISCONNECTED \<and> is_a2dp_offload_supported a2dp \<and>
              audio_check_a2dp_ready a2dp
        then (check_a2dp_ready_ret e \<noteq> 0, [IPC_audio_check_a2dp_ready])
      else (False, []))"

text \<open>
  \<^verbatim>\<open>audio_extn_a2dp_init\<close> runs on the zero-initialised global, where no function pointer
  is bound. \<open>offload_prop\<close> is what \<^verbatim>\<open>property_get_bool\<close> answers in
  \<^verbatim>\<open>update_offload_codec_support\<close>.
\<close>

definition audio_extn_a2dp_init :: "env \<Rightarrow> bool \<Rightarrow> a2dp_data \<Rightarrow> a2dp_data \<times> event list" where
  "audio_extn_a2dp_init e offload_prop a2dp =
     (case reset_a2dp_enc_config_params e
             ((a2dp_common_init (a2dp\<lparr>bt_lib_handle := False\<rparr>))
                \<lparr>enc_sampling_rate := 48000,
                 is_a2dp_offload_supported := False,
                 is_handoff_in_progress := False,
                 is_aptx_dual_mono_supported := False\<rparr>) of
        (ret, a2dp', ev) \<Rightarrow> (a2dp'\<lparr>is_a2dp_offload_supported := offload_prop\<rparr>, ev))"

subsection \<open>Sequences of start and stop calls\<close>

text \<open>
  A caller issues start and stop requests one after the other; the IPC library and the mixer
  may answer differently each time, so every call carries its own environment. \<open>run_calls\<close>
  returns, for each call that returned, the session after it and the events it produced,
  and the fault that ended the process, if any.
\<close>

datatype call = START_PLAYBACK env | STOP_PLAYBACK env

fun call_playback :: "call \<Rightarrow> a2dp_data \<Rightarrow> fault + (int \<times> a2dp_data \<times> event list)" where
  "call_playback (START_PLAYBACK e) a2dp = audio_extn_a2dp_start_playback e a2dp"
| "call_playback (STOP_PLAYBACK e) a2dp = Inr (audio_extn_a2dp_stop_playback e a2dp)"

fun run_calls :: "call list \<Rightarrow> a2dp_data \<Rightarrow> (a2dp_data \<times> event list) list \<times> fault option" where
  "run_calls [] a2dp = ([], None)"
| "run_calls (c # cs) a2dp =
     (case call_playback c a2dp of
        Inl f \<Rightarrow> ([], Some f)
      | Inr (ret, a2dp', ev) \<Rightarrow>
          (case run_calls cs a2dp' of (tr, f) \<Rightarrow> ((a2dp', ev) # tr, f)))"


subsection \<open>Concrete sessions and environments\<close>

text \<open>
  The global before \<^verbatim>\<open>audio_extn_a2dp_init\<close>: static storage, all bytes zero
  (\<^verbatim>\<open>A2DP_STATE_CONNECTED\<close> is the enum's constant 0).
\<close>

definition a2dp_zero :: a2dp_data where
  "a2dp_zero =
     \<lparr>bt_lib_handle = False, audio_stream_open = False, audio_stream_close = False,
      audio_stream_start = False, audio_stream_stop = False, audio_stream_suspend = False,
      audio_handoff_triggered = False, clear_a2dp_suspend_flag = False,
      audio_get_codec_config = False, audio_check_a2dp_ready = False,
      audio_is_scrambling_enabled = False, bt_state = A2DP_STATE_CONNECTED,
      bt_encoder_format = 0, enc_sampling_rate = 0, enc_channels = 0,
      a2dp_started = False, a2dp_suspended = False,
      a2dp_total_active_session_request = 0, is_a2dp_offload_supported = False,
      is_handoff_in_progress = False, is_aptx_dual_mono_supported = False\<rparr>"

text \<open>
  A session as \<^verbatim>\<open>open_a2dp_output\<close> leaves it when the library loads with every symbol
  and the stream opens: handle and operations bound, state connected.
\<close>

definition a2dp_connected :: a2dp_data where
  "a2dp_connected =
     \<lparr>bt_lib_handle = True, audio_stream_open = True, audio_stream_close = True,
      audio_stream_start = True, audio_stream_stop = True, audio_stream_suspend = True,
      audio_handoff_triggered = True, clear_a2dp_suspend_flag = True,
      audio_get_codec_config = True, audio_check_a2dp_ready = True,
      audio_is_scrambling_enabled = True, bt_state = A2DP_STATE_CONNECTED,
      bt_encoder_format = ENC_MEDIA_FMT_NONE, enc_sampling_rate = 48000, enc_channels = 0,
      a2dp_started = False, a2dp_suspended = False,
      a2dp_total_active_session_request = 0, is_a2dp_offload_supported = True,
      is_handoff_in_progress = False, is_aptx_dual_mono_supported = False\<rparr>"

text \<open>The SBC parameters of scenario 1 and the LDAC parameters of scenario 2.\<close>

definition scenario1_sbc :: audio_sbc_encoder_config where
  "scenario1_sbc =
     \<lparr>sbc_subband = 8, sbc_bt_blk_len = 16, sbc_sampling_rate = 44100, sbc_channels = 2,
      sbc_alloc = 0, sbc_min_bitpool = 2, sbc_max_bitpool = 53, sbc_bitrate = 328000,
      sbc_bits_per_sample = 16\<rparr>"

definition scenario2_ldac :: audio_ldac_encoder_config where
  "scenario2_ldac =
     \<lparr>ldac_sampling_rate = 48000, ldac_bt_bit_rate = 606000, ldac_bt_channel_mode = 4,
      ldac_bt_mtu = 679, ldac_bits_per_sample = 16\<rparr>"

text \<open>
  An environment in which every control exists, every write and every IPC operation
  succeeds, scrambling is on, and the negotiated codec is the one given.
\<close>

definition env_ok :: "codec_config \<Rightarrow> env" where
  "env_ok c =
     \<lparr>mixer_has_ctl = (\<lambda>n. True), mixer_write_ret = (\<lambda>n. 0), stream_start_ret = 0,
      stream_stop_ret = 0, stream_close_ret = 1, get_codec_config_ret = c,
      is_scrambling_enabled_ret = 1, check_a2dp_ready_ret = 1\<rparr>"

text \<open>An environment in which no mixer control exists and every IPC operation fails.\<close>

definition env_failing :: "codec_config \<Rightarrow> env" where
  "env_failing c =
     \<lparr>mixer_has_ctl = (\<lambda>n. False), mixer_write_ret = (\<lambda>n. - 1), stream_start_ret = - 1,
      stream_stop_ret = - 1, stream_close_ret = 0, get_codec_config_ret = c,
      is_scrambling_enabled_ret = 0, check_a2dp_ready_ret = 0\<rparr>"

text \<open>An environment in which only the write to the bit-format control is rejected.\<close>

definition env_bit_format_fails :: "codec_config \<Rightarrow> env" where
  "env_bit_format_fails c =
     \<lparr>mixer_has_ctl = (\<lambda>n. True),
      mixer_write_ret = (\<lambda>n. if n = MIXER_ENC_BIT_FORMAT then - 1 else 0),
      stream_start_ret = 0, stream_stop_ret = 0, stream_close_ret = 1,
      get_codec_config_ret = c, is_scrambling_enabled_ret = 1, check_a2dp_ready_ret = 1\<rparr>"

text \<open>APTX and AAC parameters for the examples.\<close>

definition sample_aptx :: audio_aptx_default_config where
  "sample_aptx =
     \<lparr>aptx_sampling_rate = 48000, aptx_channels = 2, aptx_bitrate = 352000,
      aptx_bits_per_sample = 16\<rparr>"

definition sample_aac :: audio_aac_encoder_config where
  "sample_aac =
     \<lparr>aac_bt_enc_mode = 1, aac_format_flag = 0, aac_channels = 2, aac_sampling_rate = 44100,
      aac_bitrate = 320000, aac_bits_per_sample = 16\<rparr>"

text \<open>
  The session after one successful start with the SBC parameters of scenario 1, and after one
  with the LDAC parameters of scenario 2 (lemmas \<open>first_start_sbc\<close> and
  \<open>scenario2_ldac_start\<close> below).
\<close>

definition a2dp_sbc_started :: a2dp_data where
  "a2dp_sbc_started =
     a2dp_connected\<lparr>bt_encoder_format := ENC_CODEC_TYPE_SBC, enc_sampling_rate := 44100,
       enc_channels := 2, a2dp_started := True, a2dp_total_active_session_request := 1\<rparr>"

definition a2dp_ldac_started :: a2dp_data where
  "a2dp_ldac_started =
     a2dp_connected\<lparr>bt_encoder_format := ENC_CODEC_TYPE_LDAC, enc_sampling_rate := 48000,
       enc_channels := 1, a2dp_started := True, a2dp_total_active_session_request := 1\<rparr>"


subsection \<open>Properties stated as predicates\<close>



section \<open>Helper lemmas\<close>

subsection \<open>What the mixer steps and the encoder configuration leave alone\<close>












text \<open>
  The encoder configuration writes only the codec, rate and channel fields (and, in the
  dispatcher, the APTX dual-mono flag).
\<close>

lemma configure_sbc_frame:
  "configure_sbc_enc_format e c s = (ok, s', ev) \<Longrightarrow>
     s' = s\<lparr>bt_encoder_format := bt_encoder_format s',
            enc_sampling_rate := enc_sampling_rate s', enc_channels := enc_channels s'\<rparr>"
  by (auto simp: configure_sbc_enc_format_def Let_def split: option.splits if_splits prod.splits)

lemma configure_aptx_frame:
  "configure_aptx_enc_format e c s = Inr (ok, s', ev) \<Longrightarrow>
     s' = s\<lparr>bt_encoder_format := bt_encoder_format s',
            enc_sampling_rate := enc_sampling_rate s', enc_channels := enc_channels s'\<rparr>"
  by (auto simp: configure_aptx_enc_format_def Let_def split: option.splits if_splits prod.splits)

lemma configure_aptx_hd_frame:
  "configure_aptx_hd_enc_format e c s = (ok, s', ev) \<Longrightarrow>
     s' = s\<lparr>bt_encoder_format := bt_encoder_format s',
            enc_sampling_rate := enc_sampling_rate s', enc_channels := enc_channels s'\<rparr>"
  by (auto simp: configure_aptx_hd_enc_format_def Let_def split: option.splits if_splits prod.splits)

lemma configure_aac_frame:
  "configure_aac_enc_format e c s = (ok, s', ev) \<Longrightarrow>
     s' = s\<lparr>bt_encoder_format := bt_encoder_format s',
            enc_sampling_rate := enc_sampling_rate s', enc_channels := enc_channels s'\<rparr>"
  by (auto simp: configure_aac_enc_format_def Let_def split: option.splits if_splits prod.splits)

lemma configure_ldac_frame:
  "configure_ldac_enc_format e c s = (ok, s', ev) \<Longrightarrow>
     s' = s\<lparr>bt_encoder_format := bt_encoder_format s',
            enc_sampling_rate := enc_sampling_rate s', enc_channels := enc_channels s'\<rparr>"
  by (auto simp: configure_ldac_enc_format_def Let_def split: option.splits if_splits prod.splits)

lemma configure_a2dp_frame:
  assumes "configure_a2dp_encoder_format e s = Inr (ok, s', ev)"
  shows "s' = s\<lparr>bt_encoder_format := bt_encoder_format s',
            enc_sampling_rate := enc_sampling_rate s', enc_channels := enc_channels s',
            is_aptx_dual_mono_supported := is_aptx_dual_mono_supported s'\<rparr>"
proof (cases "audio_get_codec_config s")
  case False
  with assms show ?thesis by (simp add: configure_a2dp_encoder_format_def)
next
  case True
  show ?thesis
  proof (cases "get_codec_config_ret e")
    case (CODEC_SBC p)
    with True assms obtain ev' where "configure_sbc_enc_format e p s = (ok, s', ev')"
      by (auto simp: configure_a2dp_encoder_format_def split: prod.splits)
    from configure_sbc_frame [OF this] show ?thesis by (cases s, cases s') simp
  next
    case (CODEC_APTX p)
    with True assms obtain ev' where
      "configure_aptx_enc_format e (Some p) (s\<lparr>is_aptx_dual_mono_supported := False\<rparr>)
         = Inr (ok, s', ev')"
      by (auto simp: configure_a2dp_encoder_format_def split: prod.splits sum.splits)
    from configure_aptx_frame [OF this] show ?thesis by (cases s, cases s') simp
  next
    case (CODEC_APTX_HD p)
    with True assms obtain ev' where "configure_aptx_hd_enc_format e p s = (ok, s', ev')"
      by (auto simp: configure_a2dp_encoder_format_def split: prod.splits)
    from configure_aptx_hd_frame [OF this] show ?thesis by (cases s, cases s') simp
  next
    case (CODEC_AAC p)
    with True assms obtain ev' where "configure_aac_enc_format e p s = (ok, s', ev')"
      by (auto simp: configure_a2dp_encoder_format_def split: prod.splits)
    from configure_aac_frame [OF this] show ?thesis by (cases s, cases s') simp
  next
    case (CODEC_LDAC p)
    with True assms obtain ev' where "configure_ldac_enc_format e p s = (ok, s', ev')"
      by (auto simp: configure_a2dp_encoder_format_def split: prod.splits)
    from configure_ldac_frame [OF this] show ?thesis by (cases s, cases s') simp
  next
    case (CODEC_OTHER t)
    with True assms show ?thesis by (simp add: configure_a2dp_encoder_format_def)
  qed
qed

lemma configure_a2dp_frame_ex:
  assumes "configure_a2dp_encoder_format e s = Inr (ok, s', ev)"
  shows "\<exists>f r c d. s' = s\<lparr>bt_encoder_format := f, enc_sampling_rate := r, enc_channels := c,
            is_aptx_dual_mono_supported := d\<rparr>"
  using configure_a2dp_frame [OF assms] by blast

lemma start_frame:
  assumes "audio_extn_a2dp_start_playback e s = Inr (r, s', ev)"
  shows "bt_lib_handle s' = bt_lib_handle s \<and> audio_stream_start s' = audio_stream_start s \<and>
         audio_get_codec_config s' = audio_get_codec_config s \<and>
         a2dp_suspended s' = a2dp_suspended s"
  using assms
  by (auto simp: audio_extn_a2dp_start_playback_def Let_def
        split: if_splits sum.splits prod.splits dest!: configure_a2dp_frame_ex)

lemma start_success_bound:
  assumes "audio_extn_a2dp_start_playback e s = Inr (0, s', ev)"
  shows "bt_lib_handle s \<and> audio_stream_start s \<and> audio_get_codec_config s \<and>
         \<not> a2dp_suspended s"
  using assms
  by (auto simp: audio_extn_a2dp_start_playback_def ENOSYS_def split: if_splits)


lemma scrambler_events:
  "set (snd (a2dp_check_and_set_scrambler e s)) \<subseteq>
     {IPC_audio_is_scrambling_enabled, MIXER_ctl_set_value MIXER_SCRAMBLER_MODE 0 True}"
  by (auto simp: a2dp_check_and_set_scrambler_def Let_def)

lemma set_backend_events:
  "x \<in> set (a2dp_set_backend_cfg e s) \<Longrightarrow> \<exists>n v. x = MIXER_ctl_set_enum_by_string n v"
  by (auto simp: a2dp_set_backend_cfg_def Let_def split: if_splits)

text \<open>
  A start request fails to return in one case only: the IPC library names APTX and hands
  over a \<^verbatim>\<open>NULL\<close> parameter block.
\<close>

lemma start_playback_fault_cases:
  assumes "audio_extn_a2dp_start_playback e s = Inl f"
  shows "f = NullDereference \<and> get_codec_config_ret e = CODEC_APTX None"
proof -
  have cfg: "configure_a2dp_encoder_format e s = Inl g \<Longrightarrow>
      g = NullDereference \<and> get_codec_config_ret e = CODEC_APTX None" for g
    by (auto simp: configure_a2dp_encoder_format_def configure_aptx_enc_format_def Let_def
          split: if_splits codec_config.splits prod.splits sum.splits option.splits)
  from assms show ?thesis
    by (auto simp: audio_extn_a2dp_start_playback_def Let_def
          split: if_splits sum.splits prod.splits dest!: cfg)
qed

subsection \<open>Counting IPC stop calls\<close>










subsection \<open>Runs that complete\<close>

text \<open>
  A sequence of calls is carried out to its end when the IPC library never hands over a
  \<^verbatim>\<open>NULL\<close> APTX parameter block.
\<close>

lemma run_calls_complete:
  assumes "\<forall>e. START_PLAYBACK e \<in> set cs \<longrightarrow> get_codec_config_ret e \<noteq> CODEC_APTX None"
  shows "snd (run_calls cs s) = None \<and> length (fst (run_calls cs s)) = length cs"
  using assms
proof (induction cs arbitrary: s)
  case Nil
  then show ?case by simp
next
  case (Cons c cs)
  have "\<exists>r s' ev. call_playback c s = Inr (r, s', ev)"
  proof (cases c)
    case (START_PLAYBACK e)
    show ?thesis
    proof (cases "audio_extn_a2dp_start_playback e s")
      case (Inl f)
      from start_playback_fault_cases [OF Inl] Cons.prems START_PLAYBACK
      show ?thesis by auto
    next
      case (Inr res)
      obtain r s' ev where "res = (r, s', ev)" by (cases res)
      with Inr START_PLAYBACK show ?thesis by simp
    qed
  next
    case (STOP_PLAYBACK e)
    then show ?thesis by (simp add: prod_eq_iff)
  qed
  then obtain r s' ev where step: "call_playback c s = Inr (r, s', ev)"
    by blast
  from Cons.prems
  have "\<forall>e. START_PLAYBACK e \<in> set cs \<longrightarrow> get_codec_config_ret e \<noteq> CODEC_APTX None"
    by simp
  then have "snd (run_calls cs s') = None \<and> length (fst (run_calls cs s')) = length cs"
    by (rule Cons.IH)
  with step show ?case by (auto split: prod.splits)
qed

subsection \<open>The scenarios, evaluated\<close>

lemma first_start_sbc:
  "audio_extn_a2dp_start_playback (env_ok (CODEC_SBC (Some scenario1_sbc))) a2dp_connected =
     Inr (0, a2dp_sbc_started,
       [IPC_audio_stream_start, IPC_audio_get_codec_config,
        MIXER_ctl_set_array MIXER_ENC_CONFIG_BLOCK
          (SBC_BLOCK \<lparr>sbc_enc_format = ENC_MEDIA_FMT_SBC, sbc_num_subbands = 8, sbc_blk_len = 16,
            sbc_channel_mode = MEDIA_FMT_SBC_CHANNEL_MODE_STEREO,
            sbc_alloc_method = MEDIA_FMT_SBC_ALLOCATION_METHOD_SNR,
            sbc_bit_rate = 328000, sbc_sample_rate = 44100\<rparr>),
        MIXER_ctl_set_enum_by_string MIXER_ENC_BIT_FORMAT ''S16_LE'',
        IPC_audio_is_scrambling_enabled,
        MIXER_ctl_set_value MIXER_SCRAMBLER_MODE 0 True,
        MIXER_ctl_set_enum_by_string MIXER_SAMPLE_RATE ''KHZ_44P1'',
        MIXER_ctl_set_enum_by_string MIXER_AFE_IN_CHANNELS ''Two''])"
  by code_simp

lemma scenario1_sbc_result:
  "configure_sbc_enc_format (env_ok (CODEC_SBC (Some scenario1_sbc))) (Some scenario1_sbc)
       a2dp_connected =
     (True,
      a2dp_connected\<lparr>bt_encoder_format := ENC_CODEC_TYPE_SBC, enc_sampling_rate := 44100,
        enc_channels := 2\<rparr>,
      [MIXER_ctl_set_array MIXER_ENC_CONFIG_BLOCK
         (SBC_BLOCK \<lparr>sbc_enc_format = ENC_MEDIA_FMT_SBC, sbc_num_subbands = 8, sbc_blk_len = 16,
            sbc_channel_mode = MEDIA_FMT_SBC_CHANNEL_MODE_STEREO,
            sbc_alloc_method = MEDIA_FMT_SBC_ALLOCATION_METHOD_SNR,
            sbc_bit_rate = 328000, sbc_sample_rate = 44100\<rparr>),
       MIXER_ctl_set_enum_by_string MIXER_ENC_BIT_FORMAT ''S16_LE''])"
  by code_simp

lemma scenario2_ldac_start:
  "audio_extn_a2dp_start_playback (env_ok (CODEC_LDAC (Some scenario2_ldac))) a2dp_connected =
     Inr (0,
       a2dp_connected\<lparr>bt_encoder_format := ENC_CODEC_TYPE_LDAC, enc_sampling_rate := 48000,
         enc_channels := 1, a2dp_started := True, a2dp_total_active_session_request := 1\<rparr>,
       [IPC_audio_stream_start, IPC_audio_get_codec_config,
        MIXER_ctl_set_array MIXER_ENC_CONFIG_BLOCK
          (LDAC_BLOCK
            \<lparr>ldac_custom_cfg =
               \<lparr>enc_format = ENC_MEDIA_FMT_LDAC, sample_rate = 48000, num_channels = 1,
                reserved = 0, channel_mapping = [PCM_CHANNEL_C, 0, 0, 0, 0, 0, 0, 0],
                custom_size = 32\<rparr>,
             ldac_cfg = \<lparr>ldac_bit_rate = 606000, ldac_channel_mode = 4, ldac_mtu = 679\<rparr>\<rparr>),
        MIXER_ctl_set_enum_by_string MIXER_ENC_BIT_FORMAT ''S16_LE'',
        IPC_audio_is_scrambling_enabled,
        MIXER_ctl_set_value MIXER_SCRAMBLER_MODE 0 True,
        MIXER_ctl_set_enum_by_string MIXER_SAMPLE_RATE ''KHZ_96'',
        MIXER_ctl_set_enum_by_string MIXER_AFE_IN_CHANNELS ''One''])"
  by code_simp

subsection \<open>Backend rate and LDAC channel mapping\<close>

lemma backend_rate:
  assumes "mixer_has_ctl e MIXER_SAMPLE_RATE"
  shows "\<exists>rest. a2dp_set_backend_cfg e a2dp =
           MIXER_ctl_set_enum_by_string MIXER_SAMPLE_RATE
             (if bt_encoder_format a2dp = ENC_CODEC_TYPE_LDAC \<and> enc_sampling_rate a2dp = 48000
                then ''KHZ_96''
              else if bt_encoder_format a2dp = ENC_CODEC_TYPE_LDAC \<and>
                      enc_sampling_rate a2dp = 44100
                then ''KHZ_88P2''
              else if enc_sampling_rate a2dp = 44100 then ''KHZ_44P1''
              else if enc_sampling_rate a2dp = 48000 then ''KHZ_48''
              else if enc_sampling_rate a2dp = 88200 then ''KHZ_88P2''
              else if enc_sampling_rate a2dp = 96000 then ''KHZ_96''
              else ''KHZ_48'') # rest"
  using assms by (simp add: a2dp_set_backend_cfg_def Let_def)

lemma ldac_mapping:
  assumes "mixer_has_ctl e MIXER_ENC_CONFIG_BLOCK"
  shows "\<exists>d rest.
       snd (snd (configure_ldac_enc_format e (Some cfg) a2dp)) =
         MIXER_ctl_set_array MIXER_ENC_CONFIG_BLOCK (LDAC_BLOCK d) # rest \<and>
       channel_mapping (ldac_custom_cfg d) =
         (if ldac_bt_channel_mode cfg = 4 then [PCM_CHANNEL_C, 0, 0, 0, 0, 0, 0, 0]
          else [PCM_CHANNEL_L, PCM_CHANNEL_R, 0, 0, 0, 0, 0, 0]) \<and>
       num_channels (ldac_custom_cfg d) = (if ldac_bt_channel_mode cfg = 4 then 1 else 2)"
  using assms
  by (cases "a2dp_set_bit_format e (ldac_bits_per_sample cfg)")
     (simp add: configure_ldac_enc_format_def Let_def zero_custom_enc_cfg_def)

lemma ldac_channels_recorded:
  assumes "configure_ldac_enc_format e (Some cfg) a2dp = (True, a2dp', ev)"
  shows "enc_channels a2dp' = (if ldac_bt_channel_mode cfg = 4 then 1 else 2) \<and>
         enc_sampling_rate a2dp' = ldac_sampling_rate cfg \<and>
         bt_encoder_format a2dp' = ENC_CODEC_TYPE_LDAC"
  using assms
  by (auto simp: configure_ldac_enc_format_def Let_def split: if_splits prod.splits)

text \<open>
  When the encoder control and the bit-format control exist and accept their writes, the
  LDAC configuration succeeds and writes codec, rate and channel count into the session.
\<close>

lemma ldac_session_recorded:
  assumes "mixer_has_ctl e MIXER_ENC_CONFIG_BLOCK"
    and "mixer_write_ret e MIXER_ENC_CONFIG_BLOCK = 0"
    and "mixer_has_ctl e MIXER_ENC_BIT_FORMAT"
    and "mixer_write_ret e MIXER_ENC_BIT_FORMAT = 0"
  shows "fst (configure_ldac_enc_format e (Some cfg) a2dp) \<and>
         fst (snd (configure_ldac_enc_format e (Some cfg) a2dp)) =
           a2dp\<lparr>bt_encoder_format := ENC_CODEC_TYPE_LDAC,
                enc_sampling_rate := ldac_sampling_rate cfg,
                enc_channels := (if ldac_bt_channel_mode cfg = 4 then 1 else 2)\<rparr>"
  using assms
  by (simp add: configure_ldac_enc_format_def a2dp_set_bit_format_def Let_def)

section \<open>The claims\<close>

subsection \<open>C1: session counter and IPC stop\<close>




subsection \<open>C2: start while suspended\<close>

text \<open>
  Claim C2. When the suspended flag is set and the IPC handle, the start operation and the
  get-codec-config operation are bound, \<^verbatim>\<open>audio_extn_a2dp_start_playback\<close> returns the
  failure \<^verbatim>\<open>-ENOSYS\<close>, leaves the session (and so the counter) unchanged and makes no call
  at all, so no IPC start.
\<close>

theorem start_while_suspended:
  assumes "a2dp_suspended a2dp"
    and "bt_lib_handle a2dp" and "audio_stream_start a2dp" and "audio_get_codec_config a2dp"
  shows "audio_extn_a2dp_start_playback e a2dp = Inr (- ENOSYS, a2dp, []) \<and> - ENOSYS \<noteq> 0"
  using assms by (simp add: audio_extn_a2dp_start_playback_def ENOSYS_def)

text \<open>Witness for C2: the started SBC session with the suspended flag set.\<close>

theorem start_while_suspended_witness:
  "a2dp_suspended (a2dp_sbc_started\<lparr>a2dp_suspended := True\<rparr>) \<and>
   bt_lib_handle (a2dp_sbc_started\<lparr>a2dp_suspended := True\<rparr>) \<and>
   audio_stream_start (a2dp_sbc_started\<lparr>a2dp_suspended := True\<rparr>) \<and>
   audio_get_codec_config (a2dp_sbc_started\<lparr>a2dp_suspended := True\<rparr>) \<and>
   audio_extn_a2dp_start_playback (env_ok (CODEC_SBC (Some scenario1_sbc)))
       (a2dp_sbc_started\<lparr>a2dp_suspended := True\<rparr>) =
     Inr (- ENOSYS, a2dp_sbc_started\<lparr>a2dp_suspended := True\<rparr>, [])"
proof -
  have h: "a2dp_suspended (a2dp_sbc_started\<lparr>a2dp_suspended := True\<rparr>)"
    "bt_lib_handle (a2dp_sbc_started\<lparr>a2dp_suspended := True\<rparr>)"
    "audio_stream_start (a2dp_sbc_started\<lparr>a2dp_suspended := True\<rparr>)"
    "audio_get_codec_config (a2dp_sbc_started\<lparr>a2dp_suspended := True\<rparr>)"
    by code_simp+
  from start_while_suspended [OF h, of "env_ok (CODEC_SBC (Some scenario1_sbc))"] h
  show ?thesis by blast
qed

subsection \<open>C3: a second start without a stop in between\<close>

text \<open>
  Claim C3. If a start succeeds with the counter at 1 and \<^verbatim>\<open>a2dp_started\<close> set, a second
  start returns 0 and leaves the counter at 2; the calls it makes are exactly those of
  \<^verbatim>\<open>a2dp_check_and_set_scrambler\<close> followed by those of \<^verbatim>\<open>a2dp_set_backend_cfg\<close>,
  and among them there is no IPC start, no request for the codec configuration and no write
  of an encoder configuration block.
\<close>

theorem second_start_reapplies_config:
  assumes "audio_extn_a2dp_start_playback e1 a2dp0 = Inr (0, a2dp1, ev1)"
    and "a2dp_total_active_session_request a2dp1 = 1"
    and "a2dp_started a2dp1"
    and "a2dp2 = a2dp1\<lparr>a2dp_total_active_session_request := 2\<rparr>"
  shows "audio_extn_a2dp_start_playback e2 a2dp1 =
           Inr (0, a2dp2,
                snd (a2dp_check_and_set_scrambler e2 a2dp2) @ a2dp_set_backend_cfg e2 a2dp2) \<and>
         IPC_audio_stream_start \<notin>
           set (snd (a2dp_check_and_set_scrambler e2 a2dp2) @ a2dp_set_backend_cfg e2 a2dp2) \<and>
         IPC_audio_get_codec_config \<notin>
           set (snd (a2dp_check_and_set_scrambler e2 a2dp2) @ a2dp_set_backend_cfg e2 a2dp2) \<and>
         (\<forall>n b. MIXER_ctl_set_array n b \<notin>
           set (snd (a2dp_check_and_set_scrambler e2 a2dp2) @ a2dp_set_backend_cfg e2 a2dp2))"
proof -
  from start_success_bound [OF assms(1)] start_frame [OF assms(1)]
  have b: "bt_lib_handle a2dp1" "audio_stream_start a2dp1" "audio_get_codec_config a2dp1"
    "\<not> a2dp_suspended a2dp1"
    by simp_all
  with assms(2-4) have run: "audio_extn_a2dp_start_playback e2 a2dp1 =
           Inr (0, a2dp2,
                snd (a2dp_check_and_set_scrambler e2 a2dp2) @ a2dp_set_backend_cfg e2 a2dp2)"
    by (simp add: audio_extn_a2dp_start_playback_def INT_MAX_def Let_def)
  have no: "x \<in> set (snd (a2dp_check_and_set_scrambler e2 a2dp2) @ a2dp_set_backend_cfg e2 a2dp2)
      \<Longrightarrow> x \<noteq> IPC_audio_stream_start \<and> x \<noteq> IPC_audio_get_codec_config \<and>
          (\<forall>n b. x \<noteq> MIXER_ctl_set_array n b)" for x
    using scrambler_events [of e2 a2dp2] set_backend_events [of x e2 a2dp2] by auto
  from run no show ?thesis by blast
qed

text \<open>
  Witness for C3: the first start is \<open>first_start_sbc\<close>; the second start asks whether
  scrambling is enabled, sets the scrambler mode and writes the backend rate and channels.
\<close>

theorem second_start_reapplies_config_witness:
  "a2dp_total_active_session_request a2dp_sbc_started = 1 \<and> a2dp_started a2dp_sbc_started \<and>
   audio_extn_a2dp_start_playback (env_ok (CODEC_SBC (Some scenario1_sbc))) a2dp_sbc_started =
     Inr (0, a2dp_sbc_started\<lparr>a2dp_total_active_session_request := 2\<rparr>,
       [IPC_audio_is_scrambling_enabled,
        MIXER_ctl_set_value MIXER_SCRAMBLER_MODE 0 True,
        MIXER_ctl_set_enum_by_string MIXER_SAMPLE_RATE ''KHZ_44P1'',
        MIXER_ctl_set_enum_by_string MIXER_AFE_IN_CHANNELS ''Two''])"
proof -
  have h2: "a2dp_total_active_session_request a2dp_sbc_started = 1" by code_simp
  have h3: "a2dp_started a2dp_sbc_started" by code_simp
  have ev: "snd (a2dp_check_and_set_scrambler (env_ok (CODEC_SBC (Some scenario1_sbc)))
                  (a2dp_sbc_started\<lparr>a2dp_total_active_session_request := 2\<rparr>)) @
            a2dp_set_backend_cfg (env_ok (CODEC_SBC (Some scenario1_sbc)))
                  (a2dp_sbc_started\<lparr>a2dp_total_active_session_request := 2\<rparr>) =
       [IPC_audio_is_scrambling_enabled,
        MIXER_ctl_set_value MIXER_SCRAMBLER_MODE 0 True,
        MIXER_ctl_set_enum_by_string MIXER_SAMPLE_RATE ''KHZ_44P1'',
        MIXER_ctl_set_enum_by_string MIXER_AFE_IN_CHANNELS ''Two'']"
    by code_simp
  from second_start_reapplies_config [OF first_start_sbc h2 h3 refl,
      of "env_ok (CODEC_SBC (Some scenario1_sbc))"] ev h2 h3
  show ?thesis by simp
qed

subsection \<open>C4: stop followed by disconnect\<close>




subsection \<open>C5: SBC channel mode and allocation method\<close>

text \<open>
  Claim C5. For every SBC parameter set, the block written to the encoder configuration
  control has channel mode Mono for channel index 0, Dual-Mono for 1, Joint-Stereo for 3 and
  Stereo for 2 and every other value, and allocation method Loudness for a non-zero
  allocation flag and SNR for a zero one. On the parameters of scenario 1 (channels 2, alloc
  0, sampling rate 44100) the block has channel mode Stereo, allocation method SNR and sample
  rate 44100, and the session records \<^verbatim>\<open>enc_channels\<close> = 2.
\<close>

theorem sbc_channel_and_allocation_mapping:
  "(mixer_has_ctl e MIXER_ENC_CONFIG_BLOCK \<longrightarrow>
      (\<exists>d rest.
         snd (snd (configure_sbc_enc_format e (Some cfg) a2dp)) =
           MIXER_ctl_set_array MIXER_ENC_CONFIG_BLOCK (SBC_BLOCK d) # rest \<and>
         sbc_channel_mode d =
           (if sbc_channels cfg = 0 then MEDIA_FMT_SBC_CHANNEL_MODE_MONO
            else if sbc_channels cfg = 1 then MEDIA_FMT_SBC_CHANNEL_MODE_DUAL_MONO
            else if sbc_channels cfg = 3 then MEDIA_FMT_SBC_CHANNEL_MODE_JOINT_STEREO
            else MEDIA_FMT_SBC_CHANNEL_MODE_STEREO) \<and>
         sbc_alloc_method d =
           (if sbc_alloc cfg \<noteq> 0 then MEDIA_FMT_SBC_ALLOCATION_METHOD_LOUDNESS
            else MEDIA_FMT_SBC_ALLOCATION_METHOD_SNR))) \<and>
   configure_sbc_enc_format (env_ok (CODEC_SBC (Some scenario1_sbc))) (Some scenario1_sbc)
       a2dp_connected =
     (True,
      a2dp_connected\<lparr>bt_encoder_format := ENC_CODEC_TYPE_SBC, enc_sampling_rate := 44100,
        enc_channels := 2\<rparr>,
      [MIXER_ctl_set_array MIXER_ENC_CONFIG_BLOCK
         (SBC_BLOCK \<lparr>sbc_enc_format = ENC_MEDIA_FMT_SBC, sbc_num_subbands = 8, sbc_blk_len = 16,
            sbc_channel_mode = MEDIA_FMT_SBC_CHANNEL_MODE_STEREO,
            sbc_alloc_method = MEDIA_FMT_SBC_ALLOCATION_METHOD_SNR,
            sbc_bit_rate = 328000, sbc_sample_rate = 44100\<rparr>),
       MIXER_ctl_set_enum_by_string MIXER_ENC_BIT_FORMAT ''S16_LE''])"
proof -
  have "mixer_has_ctl e MIXER_ENC_CONFIG_BLOCK \<Longrightarrow>
      (\<exists>d rest.
         snd (snd (configure_sbc_enc_format e (Some cfg) a2dp)) =
           MIXER_ctl_set_array MIXER_ENC_CONFIG_BLOCK (SBC_BLOCK d) # rest \<and>
         sbc_channel_mode d =
           (if sbc_channels cfg = 0 then MEDIA_FMT_SBC_CHANNEL_MODE_MONO
            else if sbc_channels cfg = 1 then MEDIA_FMT_SBC_CHANNEL_MODE_DUAL_MONO
            else if sbc_channels cfg = 3 then MEDIA_FMT_SBC_CHANNEL_MODE_JOINT_STEREO
            else MEDIA_FMT_SBC_CHANNEL_MODE_STEREO) \<and>
         sbc_alloc_method d =
           (if sbc_alloc cfg \<noteq> 0 then MEDIA_FMT_SBC_ALLOCATION_METHOD_LOUDNESS
            else MEDIA_FMT_SBC_ALLOCATION_METHOD_SNR))"
    by (cases "a2dp_set_bit_format e (sbc_bits_per_sample cfg)")
       (simp add: configure_sbc_enc_format_def Let_def)
  with scenario1_sbc_result show ?thesis by blast
qed

text \<open>Witness for C5: scenario 1 with every mixer control present.\<close>

theorem sbc_channel_and_allocation_mapping_witness:
  "mixer_has_ctl (env_ok (CODEC_SBC (Some scenario1_sbc))) MIXER_ENC_CONFIG_BLOCK \<and>
   (\<exists>d rest.
      snd (snd (configure_sbc_enc_format (env_ok (CODEC_SBC (Some scenario1_sbc)))
                  (Some scenario1_sbc) a2dp_connected)) =
        MIXER_ctl_set_array MIXER_ENC_CONFIG_BLOCK (SBC_BLOCK d) # rest \<and>
      sbc_channel_mode d = MEDIA_FMT_SBC_CHANNEL_MODE_STEREO \<and>
      sbc_alloc_method d = MEDIA_FMT_SBC_ALLOCATION_METHOD_SNR)"
proof -
  have h: "mixer_has_ctl (env_ok (CODEC_SBC (Some scenario1_sbc))) MIXER_ENC_CONFIG_BLOCK"
    by code_simp
  have c: "sbc_channels scenario1_sbc = 2" "sbc_alloc scenario1_sbc = 0"
    by code_simp+
  from sbc_channel_and_allocation_mapping
         [of "env_ok (CODEC_SBC (Some scenario1_sbc))" scenario1_sbc a2dp_connected] h c
  show ?thesis by simp
qed

subsection \<open>C6: LDAC backend rate and channel mapping\<close>

text \<open>
  Claim C6. The backend sample-rate setting written by \<^verbatim>\<open>a2dp_set_backend_cfg\<close> is the
  doubled rate (96 kHz for 48000, 88.2 kHz for 44100) when the codec is LDAC, and the setting
  of the session's own rate for every other codec. The LDAC block has a centre-only channel
  mapping and one channel for channel mode 4, and left and right and two channels for every
  other mode. Whenever the configuration succeeds the session holds that number of channels;
  and it does succeed when the encoder control and the bit-format control exist and accept
  their writes, and the session is then the one before the call with the codec set to LDAC,
  the rate to the negotiated rate and \<^verbatim>\<open>enc_channels\<close> to 1 for channel mode 4 and to 2
  otherwise. On the parameters of scenario 2, a start on the connected session (which holds
  no codec and \<^verbatim>\<open>enc_channels\<close> 0) writes the centre-only block, records LDAC, 48000 and
  \<^verbatim>\<open>enc_channels\<close> 1, and sets the backend rate to 96 kHz and the input channels to one.
\<close>

theorem ldac_backend_rate_and_channels:
  "(mixer_has_ctl e MIXER_SAMPLE_RATE \<longrightarrow>
      (\<exists>rest. a2dp_set_backend_cfg e a2dp =
           MIXER_ctl_set_enum_by_string MIXER_SAMPLE_RATE
             (if bt_encoder_format a2dp = ENC_CODEC_TYPE_LDAC \<and> enc_sampling_rate a2dp = 48000
                then ''KHZ_96''
              else if bt_encoder_format a2dp = ENC_CODEC_TYPE_LDAC \<and>
                      enc_sampling_rate a2dp = 44100
                then ''KHZ_88P2''
              else if enc_sampling_rate a2dp = 44100 then ''KHZ_44P1''
              else if enc_sampling_rate a2dp = 48000 then ''KHZ_48''
              else if enc_sampling_rate a2dp = 88200 then ''KHZ_88P2''
              else if enc_sampling_rate a2dp = 96000 then ''KHZ_96''
              else ''KHZ_48'') # rest)) \<and>
   (mixer_has_ctl e MIXER_ENC_CONFIG_BLOCK \<longrightarrow>
      (\<exists>d rest.
         snd (snd (configure_ldac_enc_format e (Some cfg) a2dp)) =
           MIXER_ctl_set_array MIXER_ENC_CONFIG_BLOCK (LDAC_BLOCK d) # rest \<and>
         channel_mapping (ldac_custom_cfg d) =
           (if ldac_bt_channel_mode cfg = 4 then [PCM_CHANNEL_C, 0, 0, 0, 0, 0, 0, 0]
            else [PCM_CHANNEL_L, PCM_CHANNEL_R, 0, 0, 0, 0, 0, 0]) \<and>
         num_channels (ldac_custom_cfg d) = (if ldac_bt_channel_mode cfg = 4 then 1 else 2))) \<and>
   (fst (configure_ldac_enc_format e (Some cfg) a2dp) \<longrightarrow>
      enc_channels (fst (snd (configure_ldac_enc_format e (Some cfg) a2dp))) =
        (if ldac_bt_channel_mode cfg = 4 then 1 else 2)) \<and>
   (mixer_has_ctl e MIXER_ENC_CONFIG_BLOCK \<and> mixer_write_ret e MIXER_ENC_CONFIG_BLOCK = 0 \<and>
    mixer_has_ctl e MIXER_ENC_BIT_FORMAT \<and> mixer_write_ret e MIXER_ENC_BIT_FORMAT = 0 \<longrightarrow>
      fst (configure_ldac_enc_format e (Some cfg) a2dp) \<and>
      fst (snd (configure_ldac_enc_format e (Some cfg) a2dp)) =
        a2dp\<lparr>bt_encoder_format := ENC_CODEC_TYPE_LDAC,
             enc_sampling_rate := ldac_sampling_rate cfg,
             enc_channels := (if ldac_bt_channel_mode cfg = 4 then 1 else 2)\<rparr>) \<and>
   enc_channels a2dp_connected = 0 \<and>
   bt_encoder_format a2dp_connected = ENC_MEDIA_FMT_NONE \<and>
   audio_extn_a2dp_start_playback (env_ok (CODEC_LDAC (Some scenario2_ldac))) a2dp_connected =
     Inr (0,
       a2dp_connected\<lparr>bt_encoder_format := ENC_CODEC_TYPE_LDAC, enc_sampling_rate := 48000,
         enc_channels := 1, a2dp_started := True, a2dp_total_active_session_request := 1\<rparr>,
       [IPC_audio_stream_start, IPC_audio_get_codec_config,
        MIXER_ctl_set_array MIXER_ENC_CONFIG_BLOCK
          (LDAC_BLOCK
            \<lparr>ldac_custom_cfg =
               \<lparr>enc_format = ENC_MEDIA_FMT_LDAC, sample_rate = 48000, num_channels = 1,
                reserved = 0, channel_mapping = [PCM_CHANNEL_C, 0, 0, 0, 0, 0, 0, 0],
                custom_size = 32\<rparr>,
             ldac_cfg = \<lparr>ldac_bit_rate = 606000, ldac_channel_mode = 4, ldac_mtu = 679\<rparr>\<rparr>),
        MIXER_ctl_set_enum_by_string MIXER_ENC_BIT_FORMAT ''S16_LE'',
        IPC_audio_is_scrambling_enabled,
        MIXER_ctl_set_value MIXER_SCRAMBLER_MODE 0 True,
        MIXER_ctl_set_enum_by_string MIXER_SAMPLE_RATE ''KHZ_96'',
        MIXER_ctl_set_enum_by_string MIXER_AFE_IN_CHANNELS ''One''])"
proof -
  obtain ok a2dp' ev where c: "configure_ldac_enc_format e (Some cfg) a2dp = (ok, a2dp', ev)"
    by (metis prod_cases3)
  from ldac_channels_recorded [of e cfg a2dp a2dp' ev] c
  have "fst (configure_ldac_enc_format e (Some cfg) a2dp) \<longrightarrow>
      enc_channels (fst (snd (configure_ldac_enc_format e (Some cfg) a2dp))) =
        (if ldac_bt_channel_mode cfg = 4 then 1 else 2)"
    by simp
  moreover have "enc_channels a2dp_connected = 0"
    "bt_encoder_format a2dp_connected = ENC_MEDIA_FMT_NONE"
    by code_simp+
  ultimately show ?thesis
    using backend_rate [of e a2dp] ldac_mapping [of e cfg a2dp]
      ldac_session_recorded [of e cfg a2dp] scenario2_ldac_start
    by blast
qed

text \<open>
  Witness for C6: scenario 2 (LDAC, 48000 Hz, channel mode 4) is configured on the connected
  session, whose \<^verbatim>\<open>enc_channels\<close> is 0 before the call and 1 after it; the backend rate is
  then taken from the session that the start of scenario 2 leaves.
\<close>

theorem ldac_backend_rate_and_channels_witness:
  "mixer_has_ctl (env_ok (CODEC_LDAC (Some scenario2_ldac))) MIXER_SAMPLE_RATE \<and>
   mixer_has_ctl (env_ok (CODEC_LDAC (Some scenario2_ldac))) MIXER_ENC_CONFIG_BLOCK \<and>
   mixer_write_ret (env_ok (CODEC_LDAC (Some scenario2_ldac))) MIXER_ENC_CONFIG_BLOCK = 0 \<and>
   mixer_has_ctl (env_ok (CODEC_LDAC (Some scenario2_ldac))) MIXER_ENC_BIT_FORMAT \<and>
   mixer_write_ret (env_ok (CODEC_LDAC (Some scenario2_ldac))) MIXER_ENC_BIT_FORMAT = 0 \<and>
   enc_channels a2dp_connected = 0 \<and>
   fst (configure_ldac_enc_format (env_ok (CODEC_LDAC (Some scenario2_ldac)))
          (Some scenario2_ldac) a2dp_connected) \<and>
   fst (snd (configure_ldac_enc_format (env_ok (CODEC_LDAC (Some scenario2_ldac)))
               (Some scenario2_ldac) a2dp_connected)) =
     a2dp_connected\<lparr>bt_encoder_format := ENC_CODEC_TYPE_LDAC, enc_sampling_rate := 48000,
       enc_channels := 1\<rparr> \<and>
   enc_channels (fst (snd (configure_ldac_enc_format (env_ok (CODEC_LDAC (Some scenario2_ldac)))
                             (Some scenario2_ldac) a2dp_connected))) = 1 \<and>
   (\<exists>d rest.
      snd (snd (configure_ldac_enc_format (env_ok (CODEC_LDAC (Some scenario2_ldac)))
                  (Some scenario2_ldac) a2dp_connected)) =
        MIXER_ctl_set_array MIXER_ENC_CONFIG_BLOCK (LDAC_BLOCK d) # rest \<and>
      channel_mapping (ldac_custom_cfg d) = [PCM_CHANNEL_C, 0, 0, 0, 0, 0, 0, 0] \<and>
      num_channels (ldac_custom_cfg d) = 1) \<and>
   (\<exists>rest. a2dp_set_backend_cfg (env_ok (CODEC_LDAC (Some scenario2_ldac))) a2dp_ldac_started =
      MIXER_ctl_set_enum_by_string MIXER_SAMPLE_RATE ''KHZ_96'' # rest)"
proof -
  have h: "mixer_has_ctl (env_ok (CODEC_LDAC (Some scenario2_ldac))) MIXER_SAMPLE_RATE"
    "mixer_has_ctl (env_ok (CODEC_LDAC (Some scenario2_ldac))) MIXER_ENC_CONFIG_BLOCK"
    "mixer_write_ret (env_ok (CODEC_LDAC (Some scenario2_ldac))) MIXER_ENC_CONFIG_BLOCK = 0"
    "mixer_has_ctl (env_ok (CODEC_LDAC (Some scenario2_ldac))) MIXER_ENC_BIT_FORMAT"
    "mixer_write_ret (env_ok (CODEC_LDAC (Some scenario2_ldac))) MIXER_ENC_BIT_FORMAT = 0"
    by code_simp+
  have c: "ldac_bt_channel_mode scenario2_ldac = 4"
    "ldac_sampling_rate scenario2_ldac = 48000"
    "bt_encoder_format a2dp_ldac_started = ENC_CODEC_TYPE_LDAC"
    "enc_sampling_rate a2dp_ldac_started = 48000"
    by code_simp+
  from ldac_backend_rate_and_channels
         [of "env_ok (CODEC_LDAC (Some scenario2_ldac))" a2dp_connected scenario2_ldac]
       ldac_backend_rate_and_channels
         [of "env_ok (CODEC_LDAC (Some scenario2_ldac))" a2dp_ldac_started scenario2_ldac]
       h c
  show ?thesis by simp
qed

subsection \<open>C7: AAC encoder mode\<close>

text \<open>
  Claim C7. For every AAC parameter set, the block written to the encoder configuration
  control has encoder mode LC for \<^verbatim>\<open>enc_mode\<close> 0, PS for 2, and SBR for 1 and every other
  value.
\<close>

theorem aac_enc_mode_mapping:
  "mixer_has_ctl e MIXER_ENC_CONFIG_BLOCK \<Longrightarrow>
     \<exists>d rest.
       snd (snd (configure_aac_enc_format e (Some cfg) a2dp)) =
         MIXER_ctl_set_array MIXER_ENC_CONFIG_BLOCK (AAC_BLOCK d) # rest \<and>
       aac_enc_mode d =
         (if aac_bt_enc_mode cfg = 0 then MEDIA_FMT_AAC_AOT_LC
          else if aac_bt_enc_mode cfg = 2 then MEDIA_FMT_AAC_AOT_PS
          else MEDIA_FMT_AAC_AOT_SBR)"
  by (cases "a2dp_set_bit_format e (aac_bits_per_sample cfg)")
     (simp add: configure_aac_enc_format_def Let_def)

text \<open>Witness for C7: AAC parameters with \<^verbatim>\<open>enc_mode\<close> 1.\<close>

theorem aac_enc_mode_mapping_witness:
  "mixer_has_ctl (env_ok (CODEC_AAC (Some sample_aac))) MIXER_ENC_CONFIG_BLOCK \<and>
   (\<exists>d rest.
      snd (snd (configure_aac_enc_format (env_ok (CODEC_AAC (Some sample_aac)))
                  (Some sample_aac) a2dp_connected)) =
        MIXER_ctl_set_array MIXER_ENC_CONFIG_BLOCK (AAC_BLOCK d) # rest \<and>
      aac_enc_mode d = MEDIA_FMT_AAC_AOT_SBR)"
proof -
  have h: "mixer_has_ctl (env_ok (CODEC_AAC (Some sample_aac))) MIXER_ENC_CONFIG_BLOCK"
    by code_simp
  have c: "aac_bt_enc_mode sample_aac = 1" by code_simp
  from aac_enc_mode_mapping [OF h, of sample_aac a2dp_connected] h c
  show ?thesis by simp
qed

subsection \<open>C8: what stop returns\<close>

text \<open>
  Counterexample for C8 as stated. On the session as \<^verbatim>\<open>audio_extn_a2dp_init\<close> leaves it
  (no IPC handle), stop does not return 0.
\<close>

theorem stop_returns_counterexample:
  "fst (audio_extn_a2dp_stop_playback (env_ok (CODEC_OTHER 0))
          (fst (audio_extn_a2dp_init (env_ok (CODEC_OTHER 0)) True a2dp_zero))) \<noteq> 0"
  by code_simp

text \<open>
  Claim C8, amended. When the IPC handle and the stop operation are bound,
  \<^verbatim>\<open>audio_extn_a2dp_stop_playback\<close> returns 0 whatever the IPC stop and the mixer answer;
  when one of them is not bound it returns \<^verbatim>\<open>-ENOSYS\<close> and does nothing.
\<close>

theorem stop_returns_success_when_bound:
  "(bt_lib_handle a2dp \<and> audio_stream_stop a2dp \<longrightarrow>
      fst (audio_extn_a2dp_stop_playback e a2dp) = 0) \<and>
   (\<not> (bt_lib_handle a2dp \<and> audio_stream_stop a2dp) \<longrightarrow>
      audio_extn_a2dp_stop_playback e a2dp = (- ENOSYS, a2dp, []))"
  by (auto simp: audio_extn_a2dp_stop_playback_def Let_def split: prod.splits)

text \<open>
  Witness for C8: the started SBC session with a failing IPC stop and no mixer control, and
  the zero-initialised session.
\<close>

theorem stop_returns_success_when_bound_witness:
  "(bt_lib_handle a2dp_sbc_started \<and> audio_stream_stop a2dp_sbc_started) \<and>
   fst (audio_extn_a2dp_stop_playback (env_failing (CODEC_OTHER 0)) a2dp_sbc_started) = 0 \<and>
   \<not> (bt_lib_handle a2dp_zero \<and> audio_stream_stop a2dp_zero) \<and>
   audio_extn_a2dp_stop_playback (env_failing (CODEC_OTHER 0)) a2dp_zero =
     (- ENOSYS, a2dp_zero, [])"
proof -
  have h1: "bt_lib_handle a2dp_sbc_started \<and> audio_stream_stop a2dp_sbc_started" by code_simp
  have h2: "\<not> (bt_lib_handle a2dp_zero \<and> audio_stream_stop a2dp_zero)" by code_simp
  from h1 h2
    stop_returns_success_when_bound [of a2dp_sbc_started "env_failing (CODEC_OTHER 0)"]
    stop_returns_success_when_bound [of a2dp_zero "env_failing (CODEC_OTHER 0)"]
  show ?thesis by blast
qed

subsection \<open>C9: a failed encoder configuration leaves the session fields alone\<close>

text \<open>
  Claim C9. For each of the five \<^verbatim>\<open>configure_*_enc_format\<close> functions, and for the
  dispatcher \<^verbatim>\<open>configure_a2dp_encoder_format\<close>: if the function returns false, the session
  fields \<^verbatim>\<open>bt_encoder_format\<close>, \<^verbatim>\<open>enc_sampling_rate\<close> and \<^verbatim>\<open>enc_channels\<close> are as
  they were before the call.
\<close>

theorem failed_configure_keeps_session:
  "(configure_sbc_enc_format e sbc a2dp = (False, a2dp', ev) \<longrightarrow>
      bt_encoder_format a2dp' = bt_encoder_format a2dp \<and>
      enc_sampling_rate a2dp' = enc_sampling_rate a2dp \<and>
      enc_channels a2dp' = enc_channels a2dp) \<and>
   (configure_aptx_enc_format e aptx a2dp = Inr (False, a2dp', ev) \<longrightarrow>
      bt_encoder_format a2dp' = bt_encoder_format a2dp \<and>
      enc_sampling_rate a2dp' = enc_sampling_rate a2dp \<and>
      enc_channels a2dp' = enc_channels a2dp) \<and>
   (configure_aptx_hd_enc_format e aptx_hd a2dp = (False, a2dp', ev) \<longrightarrow>
      bt_encoder_format a2dp' = bt_encoder_format a2dp \<and>
      enc_sampling_rate a2dp' = enc_sampling_rate a2dp \<and>
      enc_channels a2dp' = enc_channels a2dp) \<and>
   (configure_aac_enc_format e aac a2dp = (False, a2dp', ev) \<longrightarrow>
      bt_encoder_format a2dp' = bt_encoder_format a2dp \<and>
      enc_sampling_rate a2dp' = enc_sampling_rate a2dp \<and>
      enc_channels a2dp' = enc_channels a2dp) \<and>
   (configure_ldac_enc_format e ldac a2dp = (False, a2dp', ev) \<longrightarrow>
      bt_encoder_format a2dp' = bt_encoder_format a2dp \<and>
      enc_sampling_rate a2dp' = enc_sampling_rate a2dp \<and>
      enc_channels a2dp' = enc_channels a2dp) \<and>
   (configure_a2dp_encoder_format e a2dp = Inr (False, a2dp', ev) \<longrightarrow>
      bt_encoder_format a2dp' = bt_encoder_format a2dp \<and>
      enc_sampling_rate a2dp' = enc_sampling_rate a2dp \<and>
      enc_channels a2dp' = enc_channels a2dp)"
proof -
  have sbc: "configure_sbc_enc_format e c s = (False, s', v) \<Longrightarrow> s' = s" for c s s' v
    by (auto simp: configure_sbc_enc_format_def Let_def
          split: option.splits if_splits prod.splits)
  have aptx: "configure_aptx_enc_format e c s = Inr (False, s', v) \<Longrightarrow> s' = s" for c s s' v
    by (auto simp: configure_aptx_enc_format_def Let_def
          split: option.splits if_splits prod.splits)
  have aptx_hd: "configure_aptx_hd_enc_format e c s = (False, s', v) \<Longrightarrow> s' = s" for c s s' v
    by (auto simp: configure_aptx_hd_enc_format_def Let_def
          split: option.splits if_splits prod.splits)
  have aac: "configure_aac_enc_format e c s = (False, s', v) \<Longrightarrow> s' = s" for c s s' v
    by (auto simp: configure_aac_enc_format_def Let_def
          split: option.splits if_splits prod.splits)
  have ldac: "configure_ldac_enc_format e c s = (False, s', v) \<Longrightarrow> s' = s" for c s s' v
    by (auto simp: configure_ldac_enc_format_def Let_def
          split: option.splits if_splits prod.splits)
  have disp: "configure_a2dp_encoder_format e a2dp = Inr (False, a2dp', ev) \<Longrightarrow>
      bt_encoder_format a2dp' = bt_encoder_format a2dp \<and>
      enc_sampling_rate a2dp' = enc_sampling_rate a2dp \<and>
      enc_channels a2dp' = enc_channels a2dp"
    by (auto simp: configure_a2dp_encoder_format_def
          split: if_splits codec_config.splits prod.splits sum.splits
          dest!: sbc aptx aptx_hd aac ldac)
  from sbc [of sbc a2dp a2dp' ev] aptx [of aptx a2dp a2dp' ev] aptx_hd [of aptx_hd a2dp a2dp' ev]
    aac [of aac a2dp a2dp' ev] ldac [of ldac a2dp a2dp' ev] disp
  show ?thesis by blast
qed

text \<open>
  Witness for C9: with no mixer control every function fails at once; with only the
  bit-format write rejected, the LDAC configuration fails after the block has been written.
\<close>

theorem failed_configure_keeps_session_witness:
  "configure_sbc_enc_format (env_failing (CODEC_OTHER 0)) (Some scenario1_sbc) a2dp_sbc_started =
     (False, a2dp_sbc_started, []) \<and>
   configure_aptx_enc_format (env_failing (CODEC_OTHER 0)) (Some (Some sample_aptx))
       a2dp_sbc_started = Inr (False, a2dp_sbc_started, []) \<and>
   configure_aptx_hd_enc_format (env_failing (CODEC_OTHER 0)) None a2dp_sbc_started =
     (False, a2dp_sbc_started, []) \<and>
   configure_aac_enc_format (env_failing (CODEC_OTHER 0)) (Some sample_aac) a2dp_sbc_started =
     (False, a2dp_sbc_started, []) \<and>
   configure_ldac_enc_format (env_failing (CODEC_OTHER 0)) (Some scenario2_ldac)
       a2dp_sbc_started = (False, a2dp_sbc_started, []) \<and>
   configure_a2dp_encoder_format (env_failing (CODEC_OTHER 0)) a2dp_sbc_started =
     Inr (False, a2dp_sbc_started, [IPC_audio_get_codec_config]) \<and>
   \<not> fst (configure_ldac_enc_format (env_bit_format_fails (CODEC_OTHER 0))
            (Some scenario2_ldac) a2dp_sbc_started) \<and>
   snd (snd (configure_ldac_enc_format (env_bit_format_fails (CODEC_OTHER 0))
               (Some scenario2_ldac) a2dp_sbc_started)) \<noteq> [] \<and>
   bt_encoder_format (fst (snd (configure_ldac_enc_format (env_bit_format_fails (CODEC_OTHER 0))
       (Some scenario2_ldac) a2dp_sbc_started))) = bt_encoder_format a2dp_sbc_started \<and>
   enc_sampling_rate (fst (snd (configure_ldac_enc_format (env_bit_format_fails (CODEC_OTHER 0))
       (Some scenario2_ldac) a2dp_sbc_started))) = enc_sampling_rate a2dp_sbc_started \<and>
   enc_channels (fst (snd (configure_ldac_enc_format (env_bit_format_fails (CODEC_OTHER 0))
       (Some scenario2_ldac) a2dp_sbc_started))) = enc_channels a2dp_sbc_started"
proof -
  have h: "configure_sbc_enc_format (env_failing (CODEC_OTHER 0)) (Some scenario1_sbc)
       a2dp_sbc_started = (False, a2dp_sbc_started, [])"
    "configure_aptx_enc_format (env_failing (CODEC_OTHER 0)) (Some (Some sample_aptx))
       a2dp_sbc_started = Inr (False, a2dp_sbc_started, [])"
    "configure_aptx_hd_enc_format (env_failing (CODEC_OTHER 0)) None a2dp_sbc_started =
       (False, a2dp_sbc_started, [])"
    "configure_aac_enc_format (env_failing (CODEC_OTHER 0)) (Some sample_aac) a2dp_sbc_started =
       (False, a2dp_sbc_started, [])"
    "configure_ldac_enc_format (env_failing (CODEC_OTHER 0)) (Some scenario2_ldac)
       a2dp_sbc_started = (False, a2dp_sbc_started, [])"
    "configure_a2dp_encoder_format (env_failing (CODEC_OTHER 0)) a2dp_sbc_started =
       Inr (False, a2dp_sbc_started, [IPC_audio_get_codec_config])"
    by code_simp+
  have late: "\<not> fst (configure_ldac_enc_format (env_bit_format_fails (CODEC_OTHER 0))
            (Some scenario2_ldac) a2dp_sbc_started)"
    "snd (snd (configure_ldac_enc_format (env_bit_format_fails (CODEC_OTHER 0))
               (Some scenario2_ldac) a2dp_sbc_started)) \<noteq> []"
    by code_simp+
  from late(1) have l: "configure_ldac_enc_format (env_bit_format_fails (CODEC_OTHER 0))
        (Some scenario2_ldac) a2dp_sbc_started =
      (False,
       fst (snd (configure_ldac_enc_format (env_bit_format_fails (CODEC_OTHER 0))
                   (Some scenario2_ldac) a2dp_sbc_started)),
       snd (snd (configure_ldac_enc_format (env_bit_format_fails (CODEC_OTHER 0))
                   (Some scenario2_ldac) a2dp_sbc_started)))"
    by (simp add: prod_eq_iff)
  from h late l
    failed_configure_keeps_session
      [of "env_failing (CODEC_OTHER 0)" "Some scenario1_sbc" a2dp_sbc_started a2dp_sbc_started
          "[]" "Some (Some sample_aptx)" None "Some sample_aac" "Some scenario2_ldac"]
    failed_configure_keeps_session
      [of "env_failing (CODEC_OTHER 0)" "Some scenario1_sbc" a2dp_sbc_started a2dp_sbc_started
          "[IPC_audio_get_codec_config]" "Some (Some sample_aptx)" None "Some sample_aac"
          "Some scenario2_ldac"]
    failed_configure_keeps_session
      [of "env_bit_format_fails (CODEC_OTHER 0)" None a2dp_sbc_started
          "fst (snd (configure_ldac_enc_format (env_bit_format_fails (CODEC_OTHER 0))
                       (Some scenario2_ldac) a2dp_sbc_started))"
          "snd (snd (configure_ldac_enc_format (env_bit_format_fails (CODEC_OTHER 0))
                       (Some scenario2_ldac) a2dp_sbc_started))"
          None None None "Some scenario2_ldac"]
  show ?thesis by blast
qed

subsection \<open>C10: readiness query\<close>

text \<open>
  Claim C10. \<^verbatim>\<open>audio_extn_a2dp_is_ready\<close> returns false, without any IPC call, whenever the
  state is \<^verbatim>\<open>A2DP_STATE_DISCONNECTED\<close>, whatever the other fields are; and it calls the
  IPC ready check exactly when the state is not disconnected, the session is not suspended,
  offload is supported and the ready-check operation is bound.
\<close>

theorem is_ready_disconnected:
  "(bt_state a2dp = A2DP_STATE_DISCONNECTED \<longrightarrow>
      audio_extn_a2dp_is_ready e a2dp = (False, [])) \<and>
   (IPC_audio_check_a2dp_ready \<in> set (snd (audio_extn_a2dp_is_ready e a2dp)) \<longleftrightarrow>
      bt_state a2dp \<noteq> A2DP_STATE_DISCONNECTED \<and> \<not> a2dp_suspended a2dp \<and>
      is_a2dp_offload_supported a2dp \<and> audio_check_a2dp_ready a2dp)"
  by (auto simp: audio_extn_a2dp_is_ready_def)

text \<open>
  Witness for C10: a disconnected session that is not suspended, supports offload and has
  the ready check bound is not ready; the connected session does consult the IPC library.
\<close>

theorem is_ready_disconnected_witness:
  "bt_state (a2dp_connected\<lparr>bt_state := A2DP_STATE_DISCONNECTED\<rparr>) = A2DP_STATE_DISCONNECTED \<and>
   \<not> a2dp_suspended (a2dp_connected\<lparr>bt_state := A2DP_STATE_DISCONNECTED\<rparr>) \<and>
   is_a2dp_offload_supported (a2dp_connected\<lparr>bt_state := A2DP_STATE_DISCONNECTED\<rparr>) \<and>
   audio_check_a2dp_ready (a2dp_connected\<lparr>bt_state := A2DP_STATE_DISCONNECTED\<rparr>) \<and>
   audio_extn_a2dp_is_ready (env_ok (CODEC_OTHER 0))
       (a2dp_connected\<lparr>bt_state := A2DP_STATE_DISCONNECTED\<rparr>) = (False, []) \<and>
   IPC_audio_check_a2dp_ready \<in>
     set (snd (audio_extn_a2dp_is_ready (env_ok (CODEC_OTHER 0)) a2dp_connected))"
proof -
  have h: "bt_state (a2dp_connected\<lparr>bt_state := A2DP_STATE_DISCONNECTED\<rparr>) =
      A2DP_STATE_DISCONNECTED"
    "\<not> a2dp_suspended (a2dp_connected\<lparr>bt_state := A2DP_STATE_DISCONNECTED\<rparr>)"
    "is_a2dp_offload_supported (a2dp_connected\<lparr>bt_state := A2DP_STATE_DISCONNECTED\<rparr>)"
    "audio_check_a2dp_ready (a2dp_connected\<lparr>bt_state := A2DP_STATE_DISCONNECTED\<rparr>)"
    by code_simp+
  have g: "bt_state a2dp_connected \<noteq> A2DP_STATE_DISCONNECTED \<and> \<not> a2dp_suspended a2dp_connected \<and>
      is_a2dp_offload_supported a2dp_connected \<and> audio_check_a2dp_ready a2dp_connected"
    by code_simp
  from h g
    is_ready_disconnected [of "a2dp_connected\<lparr>bt_state := A2DP_STATE_DISCONNECTED\<rparr>"
      "env_ok (CODEC_OTHER 0)"]
    is_ready_disconnected [of a2dp_connected "env_ok (CODEC_OTHER 0)"]
  show ?thesis by blast
qed

end
